theory Spec2Isabelle
  imports Main "HOL-Library.Word"
begin

unbundle bit_operations_syntax

section \<open>FabricDB: the storage engine of a single-file property graph\<close>

text \<open>
  A shallow embedding of the C sources of FabricDB (\<^verbatim>\<open>Graph.c\<close>, \<^verbatim>\<open>Fabric.c\<close>,
  \<^verbatim>\<open>Class.c\<close>, \<^verbatim>\<open>ClassStore.c\<close>, \<^verbatim>\<open>IdSet.c\<close>, \<^verbatim>\<open>Hash.c\<close>, \<^verbatim>\<open>IndexStore.c\<close>,
  \<^verbatim>\<open>Index.c\<close>, \<^verbatim>\<open>LabelStore.c\<close>).  Fixed-width C integers are words; a C function that
  writes through pointers returns the new state; an out-parameter \<^verbatim>\<open>error_t *status\<close>
  becomes a component of the result.
\<close>

subsection \<open>Error codes (\<^verbatim>\<open>Internal.h\<close>)\<close>

type_synonym error_t = "32 word"

definition FABRIC_OK :: error_t where "FABRIC_OK = 0x00000000"
definition FABRIC_OUT_OF_MEMORY :: error_t where "FABRIC_OUT_OF_MEMORY = 0x00000002"
definition FABRIC_CLASSSTORE_INVALID_ID :: error_t where "FABRIC_CLASSSTORE_INVALID_ID = 0x00000101"
definition FABRIC_CLASS_DOESNT_EXIST :: error_t where "FABRIC_CLASS_DOESNT_EXIST = 0x00000102"
definition FABRIC_DUPLICATE_CLASSNAME :: error_t where "FABRIC_DUPLICATE_CLASSNAME = 0x00000103"
definition FABRIC_CANT_DELETE_CLASS_HAS_CHILDREN :: error_t where
  "FABRIC_CANT_DELETE_CLASS_HAS_CHILDREN = 0x00000104"
definition FABRIC_CANT_DELETE_CLASS_HAS_MEMBERS :: error_t where
  "FABRIC_CANT_DELETE_CLASS_HAS_MEMBERS = 0x00000105"
definition FABRIC_CLASSSTORE_NEEDS_RESIZE :: error_t where
  "FABRIC_CLASSSTORE_NEEDS_RESIZE = 0x00000110"
definition FABRIC_CLASS_INVALID_ID :: error_t where "FABRIC_CLASS_INVALID_ID = 0x00001101"

subsection \<open>Bytes in memory and the byte-order shim\<close>

text \<open>
  The host's byte order is a parameter of every function that looks at the bytes of an
  integer object.  \<open>be_bytes16\<close>, \<open>be_bytes32\<close> are the big-endian bytes of a value,
  \<open>be_val16\<close>, \<open>be_val32\<close> read them back.  \<open>mem_bytes\<close> is what a cast
  \<^verbatim>\<open>(uint8_t*) &x\<close> sees, \<open>mem_val\<close> what \<^verbatim>\<open>*(uint16_t*) bytes\<close> reads.
\<close>

datatype endian = LittleEndian | BigEndian

definition be_bytes16 :: "16 word \<Rightarrow> 8 word list" where
  "be_bytes16 x = [ucast (drop_bit 8 x), ucast x]"

definition be_bytes32 :: "32 word \<Rightarrow> 8 word list" where
  "be_bytes32 x = [ucast (drop_bit 24 x), ucast (drop_bit 16 x), ucast (drop_bit 8 x), ucast x]"

fun be_val16 :: "8 word list \<Rightarrow> 16 word" where
  "be_val16 [a, b] = push_bit 8 (ucast a) OR ucast b"
| "be_val16 _ = 0"

fun be_val32 :: "8 word list \<Rightarrow> 32 word" where
  "be_val32 [a, b, c, d] =
     push_bit 24 (ucast a) OR push_bit 16 (ucast b) OR push_bit 8 (ucast c) OR ucast d"
| "be_val32 _ = 0"

definition mem_bytes16 :: "endian \<Rightarrow> 16 word \<Rightarrow> 8 word list" where
  "mem_bytes16 h x = (case h of BigEndian \<Rightarrow> be_bytes16 x | LittleEndian \<Rightarrow> rev (be_bytes16 x))"

definition mem_bytes32 :: "endian \<Rightarrow> 32 word \<Rightarrow> 8 word list" where
  "mem_bytes32 h x = (case h of BigEndian \<Rightarrow> be_bytes32 x | LittleEndian \<Rightarrow> rev (be_bytes32 x))"

definition mem_val16 :: "endian \<Rightarrow> 8 word list \<Rightarrow> 16 word" where
  "mem_val16 h bs = (case h of BigEndian \<Rightarrow> be_val16 bs | LittleEndian \<Rightarrow> be_val16 (rev bs))"

definition mem_val32 :: "endian \<Rightarrow> 8 word list \<Rightarrow> 32 word" where
  "mem_val32 h bs = (case h of BigEndian \<Rightarrow> be_val32 bs | LittleEndian \<Rightarrow> be_val32 (rev bs))"

text \<open>
  Modelled from the spec: the macros \<^verbatim>\<open>htobe32\<close>, \<^verbatim>\<open>betoh16\<close> and \<^verbatim>\<open>betoh32\<close> of
  \<^verbatim>\<open>../ByteOrder/byteorder.h\<close>, which is not among the sources.  The spec assumes
  ``a portable big-endian read/write helper'': \<open>htobe32 h x\<close> is the host value whose
  bytes in memory are the big-endian bytes of \<open>x\<close>, and \<open>betoh\<close> is the value that the
  bytes of its argument denote when they are read big-endian.  On a big-endian host
  each is the identity, on a little-endian host each reverses the bytes.
\<close>

definition htobe32 :: "endian \<Rightarrow> 32 word \<Rightarrow> 32 word" where
  "htobe32 h x = mem_val32 h (be_bytes32 x)"

definition betoh16 :: "endian \<Rightarrow> 16 word \<Rightarrow> 16 word" where
  "betoh16 h x = be_val16 (mem_bytes16 h x)"

definition betoh32 :: "endian \<Rightarrow> 32 word \<Rightarrow> 32 word" where
  "betoh32 h x = be_val32 (mem_bytes32 h x)"

subsection \<open>The graph file (\<^verbatim>\<open>Graph.c\<close>)\<close>

text \<open>
  The backing file is its bytes and the position of the stream.  \<^verbatim>\<open>fgetc\<close> at or past
  the end returns \<^verbatim>\<open>EOF\<close>, which the cast to \<^verbatim>\<open>uint8_t\<close> turns into \<open>0xFF\<close>, and leaves
  the position alone; \<^verbatim>\<open>fputc\<close> past the end fills the gap with zero bytes.  An offset
  is a C \<^verbatim>\<open>long\<close>; \<open>-1\<close> stands for the current position.
\<close>

record gfile =
  bytes :: "8 word list"
  pos :: nat

definition fseek_set :: "gfile \<Rightarrow> int \<Rightarrow> gfile" where
  "fseek_set f off = (if off < 0 then f else f\<lparr>pos := nat off\<rparr>)"

definition fputc :: "8 word \<Rightarrow> gfile \<Rightarrow> gfile" where
  "fputc b f =
     (let bs = bytes f; p = pos f in
      if p < length bs then \<lparr>bytes = bs[p := b], pos = p + 1\<rparr>
      else \<lparr>bytes = bs @ replicate (p - length bs) 0 @ [b], pos = p + 1\<rparr>)"

definition fgetc :: "gfile \<Rightarrow> 8 word \<times> gfile" where
  "fgetc f =
     (if pos f < length (bytes f) then (bytes f ! pos f, f\<lparr>pos := pos f + 1\<rparr>)
      else (0xFF, f))"

definition Fabric_Graph_write_bytes :: "gfile \<Rightarrow> 8 word list \<Rightarrow> int \<Rightarrow> gfile" where
  "Fabric_Graph_write_bytes f bs off =
     fold fputc bs (if off \<noteq> -1 then fseek_set f off else f)"

fun read_loop :: "nat \<Rightarrow> gfile \<Rightarrow> 8 word list \<times> gfile" where
  "read_loop 0 f = ([], f)"
| "read_loop (Suc n) f =
     (let (b, f1) = fgetc f; (bs, f2) = read_loop n f1 in (b # bs, f2))"

definition Fabric_Graph_read_bytes :: "gfile \<Rightarrow> nat \<Rightarrow> int \<Rightarrow> 8 word list \<times> gfile" where
  "Fabric_Graph_read_bytes f n off =
     read_loop n (if off \<noteq> -1 then fseek_set f off else f)"

definition Fabric_Graph_write_uint32 :: "endian \<Rightarrow> gfile \<Rightarrow> 32 word \<Rightarrow> int \<Rightarrow> gfile" where
  "Fabric_Graph_write_uint32 h f v off =
     (let network_order_value = htobe32 h v
      in Fabric_Graph_write_bytes f (mem_bytes32 h network_order_value) off)"

text \<open>
  \<^verbatim>\<open>uint16_t network_order_value = htobe32(value);\<close>: the 16-bit value is widened to
  32 bits, converted as a 32-bit value and the result is cut down to its low 16 bits.
\<close>

definition Fabric_Graph_write_uint16 :: "endian \<Rightarrow> gfile \<Rightarrow> 16 word \<Rightarrow> int \<Rightarrow> gfile" where
  "Fabric_Graph_write_uint16 h f v off =
     (let network_order_value = (ucast (htobe32 h (ucast v)) :: 16 word)
      in Fabric_Graph_write_bytes f (mem_bytes16 h network_order_value) off)"

definition Fabric_Graph_read_uint32 :: "endian \<Rightarrow> gfile \<Rightarrow> int \<Rightarrow> 32 word \<times> gfile" where
  "Fabric_Graph_read_uint32 h f off =
     (let (bs, f1) = Fabric_Graph_read_bytes f 4 off in (betoh32 h (mem_val32 h bs), f1))"

definition Fabric_Graph_read_uint16 :: "endian \<Rightarrow> gfile \<Rightarrow> int \<Rightarrow> 16 word \<times> gfile" where
  "Fabric_Graph_read_uint16 h f off =
     (let (bs, f1) = Fabric_Graph_read_bytes f 2 off in (betoh16 h (mem_val16 h bs), f1))"

subsection \<open>Class records (\<^verbatim>\<open>Class.c\<close>)\<close>

record Class =
  id :: "16 word"
  label_id :: "32 word"
  parent_id :: "16 word"
  first_child_id :: "16 word"
  next_child_id :: "16 word"
  first_index_id :: "16 word"
  count :: "32 word"
  is_abstract :: "8 word"
  incrementer :: "32 word"

text \<open>\<^verbatim>\<open>Fabric_Class_init\<close>: decodes the 21 bytes of a slot into a class whose id is set.\<close>

definition Fabric_Class_init :: "endian \<Rightarrow> Class \<Rightarrow> 8 word list \<Rightarrow> error_t \<times> Class" where
  "Fabric_Class_init h self data =
     (if id self < 1 then (FABRIC_CLASS_INVALID_ID, self)
      else (FABRIC_OK, self\<lparr>
        label_id := betoh32 h (mem_val32 h (take 4 data)),
        parent_id := betoh16 h (mem_val16 h (take 2 (drop 4 data))),
        first_child_id := betoh16 h (mem_val16 h (take 2 (drop 6 data))),
        next_child_id := betoh16 h (mem_val16 h (take 2 (drop 8 data))),
        first_index_id := betoh16 h (mem_val16 h (take 2 (drop 10 data))),
        count := betoh32 h (mem_val32 h (take 4 (drop 12 data))),
        is_abstract := data ! 16,
        incrementer := betoh32 h (mem_val32 h (take 4 (drop 17 data)))\<rparr>))"

text \<open>
  \<^verbatim>\<open>Fabric_Class_load_bytes\<close>: stores each field into the destination through a cast
  pointer, that is, in the byte order of the host.
\<close>

definition Fabric_Class_load_bytes :: "endian \<Rightarrow> Class \<Rightarrow> 8 word list" where
  "Fabric_Class_load_bytes h self =
     mem_bytes32 h (label_id self) @ mem_bytes16 h (parent_id self) @
     mem_bytes16 h (first_child_id self) @ mem_bytes16 h (next_child_id self) @
     mem_bytes16 h (first_index_id self) @ mem_bytes32 h (count self) @
     [is_abstract self] @ mem_bytes32 h (incrementer self)"

definition Fabric_Class_is_in_use :: "Class \<Rightarrow> bool" where
  "Fabric_Class_is_in_use self = (label_id self \<noteq> 0)"

definition Fabric_Class_has_child_classes :: "Class \<Rightarrow> bool" where
  "Fabric_Class_has_child_classes self = (first_child_id self \<noteq> 0)"

definition Fabric_Class_has_members :: "Class \<Rightarrow> bool" where
  "Fabric_Class_has_members self = (count self > 0)"

subsection \<open>Hashing and the id set (\<^verbatim>\<open>Hash.c\<close>, \<^verbatim>\<open>IdSet.c\<close>)\<close>

text \<open>Jenkins' one-at-a-time hash over the bytes of the key as they lie in memory.\<close>

definition hash_step :: "8 word \<Rightarrow> 32 word \<Rightarrow> 32 word" where
  "hash_step b hash0 =
     (let hash1 = hash0 + ucast b;
          hash2 = hash1 + push_bit 10 hash1
      in hash2 XOR drop_bit 6 hash2)"

definition hash :: "8 word list \<Rightarrow> 32 word" where
  "hash key =
     (let hash0 = fold hash_step key 0;
          hash1 = hash0 + push_bit 3 hash0;
          hash2 = hash1 XOR drop_bit 11 hash1
      in hash2 + push_bit 15 hash2)"

definition hash_uint32 :: "endian \<Rightarrow> 32 word \<Rightarrow> 32 word" where
  "hash_uint32 h key = hash (mem_bytes32 h key)"

text \<open>
  The id set is an open-addressing table: \<open>ids\<close> is the array of \<^verbatim>\<open>cap\<close> cells (its
  length is the capacity), \<open>0\<close> marks a cell that was never used and the tombstone a cell
  whose id was removed.  A probe that finds no cell to stop at within \<^verbatim>\<open>cap\<close> steps
  has seen every cell and goes round forever: the probes take the capacity as fuel and
  \<open>None\<close> is the run that does not return (or that divides by a capacity of zero).
  Memory allocation is taken to succeed.
\<close>

definition FABRIC_IDSET_DEFAULT_CAPACITY :: int where "FABRIC_IDSET_DEFAULT_CAPACITY = 32"
definition FABRIC_IDSET_TOMBSTONE :: "32 word" where "FABRIC_IDSET_TOMBSTONE = 0x11111111"

record IdSet =
  count_ids :: int
  ids :: "32 word list"

definition Fabric_IdSet_new_with_capacity :: "int \<Rightarrow> IdSet" where
  "Fabric_IdSet_new_with_capacity capacity =
     (let capacity1 = (if capacity < 1 then FABRIC_IDSET_DEFAULT_CAPACITY else capacity)
      in \<lparr>count_ids = 0, ids = replicate (nat capacity1) 0\<rparr>)"

definition Fabric_IdSet_new :: IdSet where
  "Fabric_IdSet_new = Fabric_IdSet_new_with_capacity 0"

definition Fabric_IdSet_get_count :: "IdSet \<Rightarrow> int" where
  "Fabric_IdSet_get_count self = count_ids self"

definition Fabric_IdSet_is_empty :: "IdSet \<Rightarrow> bool" where
  "Fabric_IdSet_is_empty self = (count_ids self \<le> 0)"

definition start_pos :: "endian \<Rightarrow> IdSet \<Rightarrow> 32 word \<Rightarrow> nat" where
  "start_pos h self i = unat (hash_uint32 h i) mod length (ids self)"

fun has_probe :: "nat \<Rightarrow> 32 word list \<Rightarrow> nat \<Rightarrow> 32 word \<Rightarrow> bool option" where
  "has_probe 0 xs p i = None"
| "has_probe (Suc n) xs p i =
     (if xs ! p = 0 then Some False
      else if xs ! p = i then Some True
      else has_probe n xs ((p + 1) mod length xs) i)"

definition Fabric_IdSet_has :: "endian \<Rightarrow> IdSet \<Rightarrow> 32 word \<Rightarrow> bool option" where
  "Fabric_IdSet_has h self i = has_probe (length (ids self)) (ids self) (start_pos h self i) i"

fun free_probe :: "nat \<Rightarrow> 32 word list \<Rightarrow> nat \<Rightarrow> nat option" where
  "free_probe 0 xs p = None"
| "free_probe (Suc n) xs p =
     (if xs ! p \<noteq> 0 \<and> xs ! p \<noteq> FABRIC_IDSET_TOMBSTONE
      then free_probe n xs ((p + 1) mod length xs)
      else Some p)"

definition Fabric_IdSet__add_no_checks :: "endian \<Rightarrow> IdSet \<Rightarrow> 32 word \<Rightarrow> IdSet option" where
  "Fabric_IdSet__add_no_checks h self i =
     (case free_probe (length (ids self)) (ids self) (start_pos h self i) of
        None \<Rightarrow> None
      | Some p \<Rightarrow> Some \<lparr>count_ids = count_ids self + 1, ids = (ids self)[p := i]\<rparr>)"

fun readd_all :: "endian \<Rightarrow> 32 word list \<Rightarrow> IdSet \<Rightarrow> IdSet option" where
  "readd_all h [] self = Some self"
| "readd_all h (x # old_data) self =
     (if x \<noteq> 0 \<and> x \<noteq> FABRIC_IDSET_TOMBSTONE
      then (case Fabric_IdSet__add_no_checks h self x of
              None \<Rightarrow> None
            | Some self1 \<Rightarrow> readd_all h old_data self1)
      else readd_all h old_data self)"

definition Fabric_IdSet__resize :: "endian \<Rightarrow> IdSet \<Rightarrow> int \<Rightarrow> IdSet option" where
  "Fabric_IdSet__resize h self new_cap =
     readd_all h (ids self) \<lparr>count_ids = 0, ids = replicate (nat new_cap) 0\<rparr>"

text \<open>
  \<^verbatim>\<open>load = (float)(count + 1) / (float)cap; load > 0.6\<close>.  The two conversions are exact
  (a table of at most \<open>2 ^ 24\<close> cells), the quotient is rounded to the nearest \<^verbatim>\<open>float\<close>, and
  the \<^verbatim>\<open>double\<close> constant \<open>0.6\<close> lies between the neighbouring floats \<open>10066329 / 2 ^ 24\<close>
  and \<open>10066330 / 2 ^ 24\<close>.  So the test holds when the rounded quotient is at least
  \<open>10066330 / 2 ^ 24\<close>, that is when the exact quotient is at least the midpoint
  \<open>20132659 / 2 ^ 25\<close> of the two (a tie goes to the even significand \<open>10066330\<close>).
\<close>

definition over_maxload :: "IdSet \<Rightarrow> bool" where
  "over_maxload self =
     (20132659 * int (length (ids self)) \<le> (count_ids self + 1) * 33554432)"

definition Fabric_IdSet_add :: "endian \<Rightarrow> IdSet \<Rightarrow> 32 word \<Rightarrow> (error_t \<times> IdSet) option" where
  "Fabric_IdSet_add h self i =
     (case Fabric_IdSet_has h self i of
        None \<Rightarrow> None
      | Some True \<Rightarrow> Some (FABRIC_OK, self)
      | Some False \<Rightarrow>
          (case (if over_maxload self
                 then Fabric_IdSet__resize h self (int (length (ids self)) * 2)
                 else Some self) of
             None \<Rightarrow> None
           | Some self1 \<Rightarrow>
               (case Fabric_IdSet__add_no_checks h self1 i of
                  None \<Rightarrow> None
                | Some self2 \<Rightarrow> Some (FABRIC_OK, self2))))"

fun remove_probe :: "nat \<Rightarrow> 32 word list \<Rightarrow> nat \<Rightarrow> 32 word \<Rightarrow> nat option option" where
  "remove_probe 0 xs p i = None"
| "remove_probe (Suc n) xs p i =
     (if xs ! p = 0 then Some None
      else if xs ! p = i then Some (Some p)
      else remove_probe n xs ((p + 1) mod length xs) i)"

definition Fabric_IdSet_remove :: "endian \<Rightarrow> IdSet \<Rightarrow> 32 word \<Rightarrow> IdSet option" where
  "Fabric_IdSet_remove h self i =
     (case remove_probe (length (ids self)) (ids self) (start_pos h self i) i of
        None \<Rightarrow> None
      | Some None \<Rightarrow> Some self
      | Some (Some p) \<Rightarrow>
          Some \<lparr>count_ids = count_ids self - 1, ids = (ids self)[p := FABRIC_IDSET_TOMBSTONE]\<rparr>)"

text \<open>
  \<^verbatim>\<open>Fabric_IdSet_to_array\<close> copies the first \<^verbatim>\<open>count\<close> ids it meets in the cells, in the
  order of the cells; it runs off the end of the array (\<open>None\<close>) when there are fewer.
\<close>

fun take_ids :: "nat \<Rightarrow> 32 word list \<Rightarrow> 32 word list option" where
  "take_ids 0 xs = Some []"
| "take_ids (Suc n) [] = None"
| "take_ids (Suc n) (x # xs) =
     (if x = 0 \<or> x = FABRIC_IDSET_TOMBSTONE then take_ids (Suc n) xs
      else map_option ((#) x) (take_ids n xs))"

definition Fabric_IdSet_to_array :: "IdSet \<Rightarrow> 32 word list option" where
  "Fabric_IdSet_to_array self = take_ids (nat (count_ids self)) (ids self)"

subsection \<open>The entity map (\<^verbatim>\<open>EntityMap.c\<close>)\<close>

text \<open>
  A pointer to a \<^verbatim>\<open>Class\<close> object is an address; address \<open>0\<close> is \<^verbatim>\<open>NULL\<close>.  The cache
  of a store is an open-addressing table from 32-bit keys to pointers.  The stores
  only ever call \<^verbatim>\<open>has_key\<close>, \<^verbatim>\<open>get\<close> and \<^verbatim>\<open>set\<close> on it (never \<^verbatim>\<open>unset\<close>, so the table
  holds no tombstone and its probes end), and it is modelled by the finite map that
  it implements.  Key \<open>0\<close> marks an empty cell of the table, so a lookup of key \<open>0\<close>
  finds nothing, whatever was stored under it.
\<close>

type_synonym EntityMap = "32 word \<rightharpoonup> nat"

definition Fabric_EntityMap_new :: EntityMap where
  "Fabric_EntityMap_new = Map.empty"

definition Fabric_EntityMap_has_key :: "EntityMap \<Rightarrow> 32 word \<Rightarrow> bool" where
  "Fabric_EntityMap_has_key self key = (key \<noteq> 0 \<and> self key \<noteq> None)"

definition Fabric_EntityMap_get :: "EntityMap \<Rightarrow> 32 word \<Rightarrow> nat" where
  "Fabric_EntityMap_get self key =
     (if key = 0 then 0 else case self key of None \<Rightarrow> 0 | Some entity \<Rightarrow> entity)"

definition Fabric_EntityMap_set :: "EntityMap \<Rightarrow> 32 word \<Rightarrow> nat \<Rightarrow> error_t \<times> EntityMap" where
  "Fabric_EntityMap_set self key entity = (FABRIC_OK, self(key \<mapsto> entity))"

subsection \<open>The stores and the graph (\<^verbatim>\<open>ClassStore.c\<close>, \<^verbatim>\<open>Graph.c\<close>)\<close>

record ClassStore =
  offset :: "32 word"
  num_classes :: "16 word"
  next_free_id :: "16 word"
  last_free_id :: "16 word"
  store_size :: "32 word"
  cache :: EntityMap
  changed :: IdSet

record LabelStore =
  ls_offset :: "32 word"
  ls_size :: "32 word"
  num_labels :: "32 word"
  ls_next_free_id :: "32 word"
  ls_last_free_id :: "32 word"
  ls_cache :: EntityMap
  ls_changed :: IdSet

record VertexStore =
  vs_offset :: "32 word"
  vs_size :: "32 word"

record EdgeStore =
  es_offset :: "32 word"
  es_size :: "32 word"

record PropertyStore =
  ps_offset :: "32 word"
  ps_size :: "32 word"

record TextStore =
  ts_offset :: "32 word"
  ts_size :: "32 word"
  block_size :: "32 word"

record IndexStore =
  is_offset :: "32 word"
  is_size :: "32 word"
  page_size :: "32 word"
  page_count :: "32 word"

text \<open>
  The graph owns the file and embeds the seven stores.  \<open>objects\<close> and \<open>brk\<close> are not
  fields of the C struct: they are the heap of \<^verbatim>\<open>Class\<close> objects that the pointers of
  this graph refer to (\<open>objects a\<close> is what lies at address \<open>a\<close>) and the next address
  that \<^verbatim>\<open>Fabric_memalloc\<close> hands out.  Allocation is taken to succeed.
\<close>

record Graph =
  graph_file :: gfile
  fabric_header_string :: "8 word list"
  application_header_string :: "8 word list"
  fabric_version_number :: "32 word"
  application_version_number :: "32 word"
  file_change_counter :: "32 word"
  class_store :: ClassStore
  label_store :: LabelStore
  vertex_store :: VertexStore
  edge_store :: EdgeStore
  property_store :: PropertyStore
  text_store :: TextStore
  index_store :: IndexStore
  objects :: "nat \<Rightarrow> Class"
  brk :: nat

definition FABRIC_CLASS_STORAGE_SIZE :: "32 word" where "FABRIC_CLASS_STORAGE_SIZE = 21"
definition FABRIC_CLASSSTORE_HEADER_SIZE :: "32 word" where "FABRIC_CLASSSTORE_HEADER_SIZE = 6"

text \<open>\<^verbatim>\<open>Fabric_Class_new\<close>: a fresh object whose id is set and nothing else.\<close>

definition Fabric_Class_new :: "16 word \<Rightarrow> Graph \<Rightarrow> nat \<times> Graph" where
  "Fabric_Class_new i g =
     (brk g, g\<lparr>objects := (objects g)(brk g := (objects g (brk g))\<lparr>id := i\<rparr>), brk := brk g + 1\<rparr>)"

definition Fabric_ClassStore_init :: "endian \<Rightarrow> Graph \<Rightarrow> error_t \<times> Graph" where
  "Fabric_ClassStore_init h g =
     (let self = class_store g;
          (n, f1) = Fabric_Graph_read_uint16 h (graph_file g) (uint (offset self));
          (nf, f2) = Fabric_Graph_read_uint16 h f1 (uint (offset self + 2));
          (lf, f3) = Fabric_Graph_read_uint16 h f2 (uint (offset self + 4))
      in (FABRIC_OK,
          g\<lparr>graph_file := f3,
            class_store := self\<lparr>
              store_size := ls_offset (label_store g) - offset self,
              num_classes := n, next_free_id := nf, last_free_id := lf,
              cache := Fabric_EntityMap_new, changed := Fabric_IdSet_new\<rparr>\<rparr>))"

definition Fabric_ClassStore__get_id_offset :: "ClassStore \<Rightarrow> 16 word \<Rightarrow> 32 word" where
  "Fabric_ClassStore__get_id_offset self class_id =
     (ucast class_id - 1) * FABRIC_CLASS_STORAGE_SIZE + offset self + FABRIC_CLASSSTORE_HEADER_SIZE"

subsection \<open>Flush\<close>

text \<open>
  The loop of \<^verbatim>\<open>Fabric_ClassStore_flush\<close> over the array of changed ids.  \<open>Inl\<close> is the
  early return from inside the loop, \<open>Inr\<close> the graph after the last id; \<open>None\<close> is a
  run that does not return (a \<^verbatim>\<open>NULL\<close> class handed to \<^verbatim>\<open>Fabric_Class_load_bytes\<close>, or a
  probe of the id set that never ends).
\<close>

fun flush_loop ::
  "endian \<Rightarrow> 16 word \<Rightarrow> 32 word list \<Rightarrow> Graph \<Rightarrow> (error_t \<times> Graph + Graph) option" where
  "flush_loop h max_id [] g = Some (Inr g)"
| "flush_loop h max_id (changed_id # rest) g =
     (let self = class_store g;
          changed_class = Fabric_EntityMap_get (cache self) changed_id
      in if changed_id > ucast max_id then Some (Inl (FABRIC_CLASSSTORE_NEEDS_RESIZE, g))
         else if changed_class = 0 then None
         else
           (let off = Fabric_ClassStore__get_id_offset self (ucast changed_id);
                write_data = Fabric_Class_load_bytes h (objects g changed_class);
                f1 = Fabric_Graph_write_bytes (graph_file g) write_data (uint off)
            in case Fabric_IdSet_remove h (changed self) changed_id of
                 None \<Rightarrow> None
               | Some ch \<Rightarrow>
                   flush_loop h max_id rest
                     (g\<lparr>graph_file := f1, class_store := self\<lparr>changed := ch\<rparr>\<rparr>)))"

definition Fabric_ClassStore_flush :: "endian \<Rightarrow> Graph \<Rightarrow> (error_t \<times> Graph) option" where
  "Fabric_ClassStore_flush h g =
     (let self = class_store g in
      if Fabric_IdSet_is_empty (changed self) then Some (FABRIC_OK, g)
      else
        (case Fabric_IdSet_to_array (changed self) of
           None \<Rightarrow> None
         | Some changed_ids \<Rightarrow>
             (let max_id = (ucast ((store_size self - FABRIC_CLASSSTORE_HEADER_SIZE)
                                    div FABRIC_CLASS_STORAGE_SIZE) :: 16 word)
              in case flush_loop h max_id changed_ids g of
                   None \<Rightarrow> None
                 | Some (Inl r) \<Rightarrow> Some r
                 | Some (Inr g1) \<Rightarrow>
                     (let self1 = class_store g1;
                          f1 = Fabric_Graph_write_uint16 h (graph_file g1) (num_classes self1)
                                 (uint (offset self1));
                          f2 = Fabric_Graph_write_uint16 h f1 (next_free_id self1)
                                 (uint (offset self1 + 2));
                          f3 = Fabric_Graph_write_uint16 h f2 (next_free_id self1)
                                 (uint (offset self1 + 4))
                      in Some (FABRIC_OK, g1\<lparr>graph_file := f3\<rparr>)))))"

subsection \<open>The free list\<close>

text \<open>
  \<^verbatim>\<open>Fabric_ClassStore__next_id\<close> and \<^verbatim>\<open>Fabric_ClassStore__add_free_id\<close>.  The link of a
  freed id is read from the parent field of the cached object or, when the id is not
  in the cache, from the parent field of its slot in the file.  The offset of that read
  is \<^verbatim>\<open>next_id_offset + sizeof(labelid_t)\<close>, a sum in \<^verbatim>\<open>size_t\<close>, which on a host with 64-bit
  \<^verbatim>\<open>long\<close> does not wrap around at \<open>2 ^ 32\<close>.  \<open>None\<close>: the cache holds a \<^verbatim>\<open>NULL\<close> pointer
  under the id, which is dereferenced.
\<close>

definition Fabric_ClassStore__next_id :: "endian \<Rightarrow> Graph \<Rightarrow> (16 word \<times> Graph) option" where
  "Fabric_ClassStore__next_id h g =
     (let self = class_store g; nfi = next_free_id self in
      if next_free_id self = last_free_id self then
        Some (nfi, g\<lparr>class_store := self\<lparr>next_free_id := next_free_id self + 1,
                                           last_free_id := last_free_id self + 1\<rparr>\<rparr>)
      else if Fabric_EntityMap_has_key (cache self) (ucast nfi) then
        (let c = Fabric_EntityMap_get (cache self) (ucast nfi) in
         if c = 0 then None
         else Some (nfi, g\<lparr>class_store := self\<lparr>next_free_id := parent_id (objects g c)\<rparr>\<rparr>))
      else
        (let next_id_offset = Fabric_ClassStore__get_id_offset self nfi;
             (v, f1) = Fabric_Graph_read_uint16 h (graph_file g) (uint next_id_offset + 4)
         in Some (nfi, g\<lparr>graph_file := f1, class_store := self\<lparr>next_free_id := v\<rparr>\<rparr>)))"

definition Fabric_ClassStore__add_free_id :: "Graph \<Rightarrow> nat \<Rightarrow> Graph option" where
  "Fabric_ClassStore__add_free_id g c =
     (if c = 0 then None
      else
        (let self = class_store g;
             obj = (objects g c)\<lparr>parent_id := next_free_id self\<rparr>
         in Some (g\<lparr>objects := (objects g)(c := obj),
                     class_store := self\<lparr>next_free_id := id obj\<rparr>\<rparr>)))"

subsection \<open>Lookup\<close>

definition Fabric_ClassStore_get_class ::
  "endian \<Rightarrow> Graph \<Rightarrow> 16 word \<Rightarrow> nat \<times> error_t \<times> Graph" where
  "Fabric_ClassStore_get_class h g class_id =
     (let self = class_store g;
          c = Fabric_EntityMap_get (cache self) (ucast class_id)
      in if c = 0 then
           (let off = Fabric_ClassStore__get_id_offset self class_id in
            if off > store_size self + offset self \<or> class_id < 1
            then (c, FABRIC_CLASSSTORE_INVALID_ID, g)
            else
              (let (data, f1) = Fabric_Graph_read_bytes (graph_file g) 21 (uint off);
                   (c1, g1) = Fabric_Class_new class_id (g\<lparr>graph_file := f1\<rparr>);
                   (status, obj) = Fabric_Class_init h (objects g1 c1) data;
                   (st, cache1) = Fabric_EntityMap_set (cache self) (ucast class_id) c1;
                   g2 = g1\<lparr>objects := (objects g1)(c1 := obj),
                           class_store := (class_store g1)\<lparr>cache := cache1\<rparr>\<rparr>
               in if \<not> Fabric_Class_is_in_use obj then (0, FABRIC_CLASS_DOESNT_EXIST, g2)
                  else (c1, status, g2)))
         else if \<not> Fabric_Class_is_in_use (objects g c) then (0, FABRIC_CLASS_DOESNT_EXIST, g)
         else (c, FABRIC_OK, g))"

definition Fabric_Class_get_parent_class :: "endian \<Rightarrow> Graph \<Rightarrow> nat \<Rightarrow> nat \<times> error_t \<times> Graph" where
  "Fabric_Class_get_parent_class h g self =
     Fabric_ClassStore_get_class h g (parent_id (objects g self))"

definition Fabric_Class_get_first_child_class :: "endian \<Rightarrow> Graph \<Rightarrow> nat \<Rightarrow> nat \<times> error_t \<times> Graph" where
  "Fabric_Class_get_first_child_class h g self =
     Fabric_ClassStore_get_class h g (first_child_id (objects g self))"

definition Fabric_Class_get_next_child_class :: "endian \<Rightarrow> Graph \<Rightarrow> nat \<Rightarrow> nat \<times> error_t \<times> Graph" where
  "Fabric_Class_get_next_child_class h g self =
     Fabric_ClassStore_get_class h g (next_child_id (objects g self))"

text \<open>
  The index store and the label store of the sources are stubs: every operation on them
  that the class store calls returns \<^verbatim>\<open>FABRIC_OK\<close> and changes nothing, and the two
  lookups by name find nothing.
\<close>

definition Fabric_ClassIndex_get_class_id :: "string \<Rightarrow> 16 word \<times> error_t" where
  "Fabric_ClassIndex_get_class_id name = (0, FABRIC_OK)"

definition Fabric_IndexStore_remove_class_from_index :: "Graph \<Rightarrow> nat \<Rightarrow> error_t" where
  "Fabric_IndexStore_remove_class_from_index g c = FABRIC_OK"

definition Fabric_IndexStore_add_class_to_index :: "Graph \<Rightarrow> nat \<Rightarrow> error_t" where
  "Fabric_IndexStore_add_class_to_index g c = FABRIC_OK"

definition Fabric_IndexStore_create_id_index :: "Graph \<Rightarrow> 16 word \<Rightarrow> 16 word \<times> error_t" where
  "Fabric_IndexStore_create_id_index g class_id = (0, FABRIC_OK)"

definition Fabric_LabelStore_remove_label :: "Graph \<Rightarrow> 32 word \<Rightarrow> error_t" where
  "Fabric_LabelStore_remove_label g lid = FABRIC_OK"

subsection \<open>Deleting a class\<close>

text \<open>
  The walk along the sibling chain of \<^verbatim>\<open>Fabric_ClassStore_delete_class\<close>:
  \<^verbatim>\<open>while (next_child_id(child_class) != class_id) child_class = next child\<close>, which
  leaves the function when a lookup fails and need not end on a chain with a cycle.
\<close>

partial_function (option) sibling_walk ::
  "endian \<Rightarrow> 16 word \<Rightarrow> nat \<Rightarrow> Graph \<Rightarrow> (nat \<times> error_t \<times> Graph) option" where
  "sibling_walk h class_id child_class g =
     (if next_child_id (objects g child_class) \<noteq> class_id then
        (case Fabric_Class_get_next_child_class h g child_class of
           (c1, status, g1) \<Rightarrow>
             if FABRIC_OK \<noteq> status then Some (c1, status, g1)
             else sibling_walk h class_id c1 g1)
      else Some (child_class, FABRIC_OK, g))"

text \<open>
  The update of the hierarchy (the \<^verbatim>\<open>if\<close>/\<^verbatim>\<open>else\<close> under ``update the class hierarchy'').
  \<open>Inl\<close> is a \<^verbatim>\<open>return status\<close> from inside it; \<open>Inr\<close> carries \<^verbatim>\<open>child_class\<close> (still
  \<^verbatim>\<open>NULL\<close> in the first branch) and \<^verbatim>\<open>status\<close> on to the rest of the function.
\<close>

definition delete_update_hierarchy ::
  "endian \<Rightarrow> Graph \<Rightarrow> 16 word \<Rightarrow> nat \<Rightarrow> nat \<Rightarrow> (error_t \<times> Graph + nat \<times> error_t \<times> Graph) option" where
  "delete_update_hierarchy h g class_id c parent_class =
     (if first_child_id (objects g parent_class) = class_id then
        (let pobj = (objects g parent_class)\<lparr>first_child_id := next_child_id (objects g c)\<rparr>;
             g1 = g\<lparr>objects := (objects g)(parent_class := pobj)\<rparr>;
             child_class = 0;
             (status, cache1) =
               Fabric_EntityMap_set (cache (class_store g1)) (ucast (id pobj)) child_class;
             g2 = g1\<lparr>class_store := (class_store g1)\<lparr>cache := cache1\<rparr>\<rparr>
         in if FABRIC_OK = status then
              (case Fabric_IdSet_add h (changed (class_store g2)) (ucast (id pobj)) of
                 None \<Rightarrow> None
               | Some (status1, ch) \<Rightarrow>
                   Some (Inr (child_class, status1,
                              g2\<lparr>class_store := (class_store g2)\<lparr>changed := ch\<rparr>\<rparr>)))
            else Some (Inr (child_class, status, g2)))
      else
        (case Fabric_Class_get_first_child_class h g parent_class of
           (child0, status0, g1) \<Rightarrow>
             if FABRIC_OK \<noteq> status0 then Some (Inl (status0, g1))
             else
               (case sibling_walk h class_id child0 g1 of
                  None \<Rightarrow> None
                | Some (child_class, status1, g2) \<Rightarrow>
                    if FABRIC_OK \<noteq> status1 then Some (Inl (status1, g2))
                    else
                      (let cobj = (objects g2 child_class)\<lparr>next_child_id := class_id\<rparr>;
                           g3 = g2\<lparr>objects := (objects g2)(child_class := cobj)\<rparr>;
                           (status2, cache1) =
                             Fabric_EntityMap_set (cache (class_store g3)) (ucast (id cobj))
                               child_class;
                           g4 = g3\<lparr>class_store := (class_store g3)\<lparr>cache := cache1\<rparr>\<rparr>
                       in if FABRIC_OK = status2 then
                            (case Fabric_IdSet_add h (changed (class_store g4)) (ucast (id cobj)) of
                               None \<Rightarrow> None
                             | Some (status3, ch) \<Rightarrow>
                                 Some (Inr (child_class, status3,
                                   g4\<lparr>class_store := (class_store g4)\<lparr>changed := ch\<rparr>\<rparr>)))
                          else Some (Inr (child_class, status2, g4))))))"

text \<open>``revert changes on error''.\<close>

definition delete_revert :: "Graph \<Rightarrow> 16 word \<Rightarrow> nat \<Rightarrow> nat \<Rightarrow> error_t \<Rightarrow> error_t \<times> Graph" where
  "delete_revert g class_id parent_class child_class status =
     (if child_class = 0
      then (status, g\<lparr>objects := (objects g)
              (parent_class := (objects g parent_class)\<lparr>first_child_id := class_id\<rparr>)\<rparr>)
      else (status, g\<lparr>objects := (objects g)
              (child_class := (objects g child_class)\<lparr>next_child_id := class_id\<rparr>)\<rparr>))"

text \<open>
  ``Update the label and class index store and track all the changes'': the chain of
  \<^verbatim>\<open>||\<close> runs each step only when all steps before it returned \<^verbatim>\<open>FABRIC_OK\<close>.
\<close>

definition delete_finish ::
  "endian \<Rightarrow> Graph \<Rightarrow> nat \<Rightarrow> 16 word \<Rightarrow> nat \<Rightarrow> nat \<Rightarrow> error_t \<Rightarrow> (error_t \<times> Graph) option" where
  "delete_finish h g c class_id parent_class child_class status =
     (let lid = label_id (objects g c) in
      if FABRIC_OK \<noteq> status then Some (delete_revert g class_id parent_class child_class status)
      else
        (let status1 = Fabric_IndexStore_remove_class_from_index g c in
         if FABRIC_OK \<noteq> status1
         then Some (delete_revert g class_id parent_class child_class status1)
         else
           (case Fabric_IdSet_add h (changed (class_store g)) (ucast class_id) of
              None \<Rightarrow> None
            | Some (status2, ch2) \<Rightarrow>
                (let g2 = g\<lparr>class_store := (class_store g)\<lparr>changed := ch2\<rparr>\<rparr> in
                 if FABRIC_OK \<noteq> status2
                 then Some (delete_revert g2 class_id parent_class child_class status2)
                 else
                   (let (status3, cache3) =
                          Fabric_EntityMap_set (cache (class_store g2)) (ucast class_id) c;
                        g3 = g2\<lparr>class_store := (class_store g2)\<lparr>cache := cache3\<rparr>\<rparr>
                    in if FABRIC_OK \<noteq> status3
                       then Some (delete_revert g3 class_id parent_class child_class status3)
                       else
                         (case Fabric_IdSet_add h (changed (class_store g3)) (ucast class_id) of
                            None \<Rightarrow> None
                          | Some (status4, ch4) \<Rightarrow>
                              (let g4 = g3\<lparr>class_store := (class_store g3)\<lparr>changed := ch4\<rparr>\<rparr> in
                               if FABRIC_OK \<noteq> status4
                               then Some (delete_revert g4 class_id parent_class child_class status4)
                               else
                                 (let status5 = Fabric_LabelStore_remove_label g4 lid in
                                  if FABRIC_OK \<noteq> status5
                                  then Some (delete_revert g4 class_id parent_class child_class
                                               status5)
                                  else
                                    (case Fabric_ClassStore__add_free_id g4 c of
                                       None \<Rightarrow> None
                                     | Some g5 \<Rightarrow>
                                         Some (FABRIC_OK,
                                           g5\<lparr>class_store := (class_store g5)
                                             \<lparr>num_classes :=
                                                num_classes (class_store g5) - 1\<rparr>\<rparr>))))))))))"

text \<open>
  \<^verbatim>\<open>Fabric_ClassStore_delete_class\<close>.  The class is given by the pointer \<open>c\<close>; a \<^verbatim>\<open>NULL\<close>
  pointer is dereferenced by the first test.
\<close>

definition Fabric_ClassStore_delete_class :: "endian \<Rightarrow> Graph \<Rightarrow> nat \<Rightarrow> (error_t \<times> Graph) option" where
  "Fabric_ClassStore_delete_class h g c =
     (if c = 0 then None
      else if \<not> Fabric_Class_is_in_use (objects g c) then Some (FABRIC_OK, g)
      else if Fabric_Class_has_child_classes (objects g c)
      then Some (FABRIC_CANT_DELETE_CLASS_HAS_CHILDREN, g)
      else if Fabric_Class_has_members (objects g c)
      then Some (FABRIC_CANT_DELETE_CLASS_HAS_MEMBERS, g)
      else
        (let class_id = id (objects g c) in
         case Fabric_Class_get_parent_class h g c of
           (parent_class, status, g1) \<Rightarrow>
             if FABRIC_OK \<noteq> status then Some (status, g1)
             else
               (case delete_update_hierarchy h g1 class_id c parent_class of
                  None \<Rightarrow> None
                | Some (Inl r) \<Rightarrow> Some r
                | Some (Inr (child_class, status1, g2)) \<Rightarrow>
                    delete_finish h g2 c class_id parent_class child_class status1)))"

subsection \<open>Lookup by name and creation\<close>

text \<open>
  \<^verbatim>\<open>Fabric_ClassStore_get_class_by_name\<close>.  \<open>status\<close> is the address that the caller
  passes for the out-parameter \<^verbatim>\<open>error_t *status\<close>; the value stored there is a
  component of the result.  \<^verbatim>\<open>Fabric_IndexStore_get_class_index\<close> stores \<^verbatim>\<open>FABRIC_OK\<close>
  through it (a \<^verbatim>\<open>NULL\<close> address is dereferenced there).  The two tests
  \<^verbatim>\<open>if (FABRIC_OK != status)\<close> compare the pointer itself with the constant \<open>0\<close>.
  The lookup in the class-name index is the parameter \<open>lookup\<close>; in the sources it is
  the stub \<open>Fabric_ClassIndex_get_class_id\<close>.
\<close>

definition Fabric_ClassStore_get_class_by_name ::
  "(string \<Rightarrow> 16 word \<times> error_t) \<Rightarrow> endian \<Rightarrow> Graph \<Rightarrow> string \<Rightarrow> nat
     \<Rightarrow> (nat \<times> error_t \<times> Graph) option" where
  "Fabric_ClassStore_get_class_by_name lookup h g name status =
     (if status = 0 then None
      else
        (let st0 = FABRIC_OK in
         if (0::nat) \<noteq> status then Some (0, st0, g)
         else
           (let (cid, st1) = lookup name in
            if (0::nat) \<noteq> status then Some (0, st1, g)
            else if cid = 0 then Some (0, FABRIC_CLASS_DOESNT_EXIST, g)
            else Some (Fabric_ClassStore_get_class h g cid))))"

text \<open>
  The rollback of \<^verbatim>\<open>Fabric_ClassStore_create_class\<close> when caching, marking or indexing
  the new class fails.
\<close>

definition create_rollback :: "Graph \<Rightarrow> nat \<Rightarrow> nat \<Rightarrow> error_t \<Rightarrow> (nat \<times> error_t \<times> Graph) option" where
  "create_rollback g c extends stat =
     (let eobj = (objects g extends)\<lparr>first_child_id := next_child_id (objects g c)\<rparr>;
          g1 = g\<lparr>objects := (objects g)(extends := eobj)\<rparr>;
          g2 = g1\<lparr>objects := (objects g1)(c := (objects g1 c)\<lparr>label_id := 0\<rparr>)\<rparr>
      in case Fabric_ClassStore__add_free_id g2 c of
           None \<Rightarrow> None
         | Some g3 \<Rightarrow> Some (0, stat, g3))"

text \<open>
  \<^verbatim>\<open>Fabric_ClassStore_create_class\<close> from the allocation of the id on.  The label store
  of the sources calls functions that the sources do not define, so its
  \<^verbatim>\<open>Fabric_LabelStore_add_label\<close> is the parameter \<open>add_label\<close>.
\<close>

definition create_class_body ::
  "(Graph \<Rightarrow> string \<Rightarrow> (32 word \<times> error_t \<times> Graph) option) \<Rightarrow> endian \<Rightarrow> Graph \<Rightarrow> nat \<Rightarrow> string
     \<Rightarrow> 8 word \<Rightarrow> (nat \<times> error_t \<times> Graph) option" where
  "create_class_body add_label h g extends name is_abs =
     (case Fabric_ClassStore__next_id h g of
        None \<Rightarrow> None
      | Some (class_id, g2) \<Rightarrow>
          (case Fabric_Class_new class_id g2 of
             (c, g3) \<Rightarrow>
               (case add_label g3 name of
                  None \<Rightarrow> None
                | Some (lid, st1, g4) \<Rightarrow>
                    if FABRIC_OK \<noteq> st1 then
                      (case Fabric_ClassStore__add_free_id g4 c of
                         None \<Rightarrow> None
                       | Some g5 \<Rightarrow> Some (0, st1, g5))
                    else
                      (let (index_id, st2) =
                             (if is_abs = 0 then Fabric_IndexStore_create_id_index g4 class_id
                              else (0, st1))
                       in if FABRIC_OK \<noteq> st2 then
                            (case Fabric_ClassStore__add_free_id g4 c of
                               None \<Rightarrow> None
                             | Some g5 \<Rightarrow> Some (0, st2, g5))
                          else if extends = 0 then None
                          else
                            (let parent_class_id = id (objects g4 extends);
                                 cobj = (objects g4 c)\<lparr>
                                   label_id := lid,
                                   parent_id := parent_class_id,
                                   next_child_id := first_child_id (objects g4 extends)\<rparr>;
                                 g5 = g4\<lparr>objects := (objects g4)(c := cobj)\<rparr>;
                                 eobj = (objects g5 extends)\<lparr>first_child_id := class_id\<rparr>;
                                 g6 = g5\<lparr>objects := (objects g5)(extends := eobj)\<rparr>;
                                 cobj1 = (objects g6 c)\<lparr>
                                   first_index_id := index_id, count := 0, incrementer := 1,
                                   is_abstract := is_abs\<rparr>;
                                 g7 = g6\<lparr>objects := (objects g6)(c := cobj1)\<rparr>;
                                 (stat1, cache1) =
                                   Fabric_EntityMap_set (cache (class_store g7)) (ucast class_id) c;
                                 (stat2, cache2) =
                                   Fabric_EntityMap_set cache1 (ucast parent_class_id) extends;
                                 g8 = g7\<lparr>class_store := (class_store g7)\<lparr>cache := cache2\<rparr>\<rparr>
                             in if FABRIC_OK \<noteq> stat1 then create_rollback g7 c extends stat1
                                else if FABRIC_OK \<noteq> stat2 then create_rollback g8 c extends stat2
                                else
                                  (case Fabric_IdSet_add h (changed (class_store g8))
                                          (ucast class_id) of
                                     None \<Rightarrow> None
                                   | Some (stat3, ch3) \<Rightarrow>
                                       (let g9 = g8\<lparr>class_store :=
                                                   (class_store g8)\<lparr>changed := ch3\<rparr>\<rparr>
                                        in if FABRIC_OK \<noteq> stat3
                                           then create_rollback g9 c extends stat3
                                           else
                                             (case Fabric_IdSet_add h (changed (class_store g9))
                                                     (ucast parent_class_id) of
                                                None \<Rightarrow> None
                                              | Some (stat4, ch4) \<Rightarrow>
                                                  (let g10 = g9\<lparr>class_store :=
                                                         (class_store g9)\<lparr>changed := ch4\<rparr>\<rparr>;
                                                       stat5 =
                                                         Fabric_IndexStore_add_class_to_index g10 c
                                                   in if FABRIC_OK \<noteq> stat4
                                                      then create_rollback g10 c extends stat4
                                                      else if FABRIC_OK \<noteq> stat5
                                                      then create_rollback g10 c extends stat5
                                                      else Some (c, FABRIC_OK,
                                                        g10\<lparr>class_store := (class_store g10)
                                                          \<lparr>num_classes :=
                                                             num_classes (class_store g10) + 1\<rparr>\<rparr>))))))))))"

definition Fabric_ClassStore_create_class ::
  "(string \<Rightarrow> 16 word \<times> error_t) \<Rightarrow> (Graph \<Rightarrow> string \<Rightarrow> (32 word \<times> error_t \<times> Graph) option)
     \<Rightarrow> endian \<Rightarrow> Graph \<Rightarrow> nat \<Rightarrow> string \<Rightarrow> 8 word \<Rightarrow> nat \<Rightarrow> (nat \<times> error_t \<times> Graph) option" where
  "Fabric_ClassStore_create_class lookup add_label h g extends name is_abs status =
     (case Fabric_ClassStore_get_class_by_name lookup h g name status of
        None \<Rightarrow> None
      | Some (found, st, g1) \<Rightarrow>
          if found \<noteq> 0 then Some (0, FABRIC_DUPLICATE_CLASSNAME, g1)
          else if FABRIC_CLASS_DOESNT_EXIST \<noteq> st then Some (0, st, g1)
          else create_class_body add_label h g1 extends name is_abs)"

subsection \<open>Loading a graph (\<^verbatim>\<open>Graph.c\<close>, \<^verbatim>\<open>Fabric.c\<close>)\<close>

definition FABRIC_HEADER_STRING :: "8 word list" where
  "FABRIC_HEADER_STRING =
     [0x66, 0x61, 0x62, 0x72, 0x69, 0x63, 0x64, 0x62, 0x20, 0x76, 0x30, 0x2E, 0x31, 0, 0, 0]"

text \<open>
  A store finds its graph by pointer arithmetic: \<^verbatim>\<open>Fabric_XStore_get_graph\<close> subtracts
  \<^verbatim>\<open>offsetof(Graph, x_store)\<close> from the address of the store.  Six of the seven functions
  name their own member, and the model passes them the graph that embeds the store.
  \<^verbatim>\<open>Fabric_LabelStore_get_graph\<close> subtracts \<^verbatim>\<open>offsetof(Graph, class_store)\<close>, so the pointer it
  returns lies \<^verbatim>\<open>sizeof(ClassStore)\<close> bytes inside the graph.  The model fixes the layout of
  an LP64 host (pointers of 8 bytes, every member at its natural alignment), where
  \<^verbatim>\<open>sizeof(ClassStore)\<close> is 32, \<^verbatim>\<open>sizeof(LabelStore)\<close> is 40 and the members of \<^verbatim>\<open>Graph\<close> start
  at the offsets 0 (\<^verbatim>\<open>graph_file\<close>), 8, 24 (\<^verbatim>\<open>application_header_string\<close>), 40, 44, 48, 56
  (\<^verbatim>\<open>class_store\<close>), 88 (\<^verbatim>\<open>label_store\<close>), 128 (\<^verbatim>\<open>vertex_store\<close>), 136, 144, 152
  (\<^verbatim>\<open>text_store\<close>) and 164.  Through the shifted pointer the member \<^verbatim>\<open>graph_file\<close> is the
  bytes 32 to 39 of the graph, which are the bytes 8 to 15 of the application header string
  read as a pointer in the byte order of the host, and \<^verbatim>\<open>vertex_store.offset\<close> is the bytes
  160 to 163, which are \<^verbatim>\<open>text_store.block_size\<close>.  These are the two members that
  \<^verbatim>\<open>Fabric_LabelStore_init\<close> reads; \<open>Fabric_LabelStore_get_graph\<close> returns them.
\<close>

definition be_val64 :: "8 word list \<Rightarrow> 64 word" where
  "be_val64 bs = foldl (\<lambda>v b. push_bit 8 v OR ucast b) 0 bs"

definition mem_val64 :: "endian \<Rightarrow> 8 word list \<Rightarrow> 64 word" where
  "mem_val64 h bs = (case h of BigEndian \<Rightarrow> be_val64 bs | LittleEndian \<Rightarrow> be_val64 (rev bs))"

definition Fabric_LabelStore_get_graph :: "endian \<Rightarrow> Graph \<Rightarrow> 64 word \<times> 32 word" where
  "Fabric_LabelStore_get_graph h g =
     (mem_val64 h (take 8 (drop 8 (application_header_string g))), block_size (text_store g))"

text \<open>
  \<^verbatim>\<open>Fabric_LabelStore_init\<close>.  \<open>fp\<close> is the address of the stream of the graph file, the
  only stream there is; \<^verbatim>\<open>fseek\<close> and \<^verbatim>\<open>fgetc\<close> through any other pointer have no defined
  behaviour, and the function then has no result.  The function uses a variable
  \<^verbatim>\<open>status\<close> that it does not declare; the model takes it for the local variable that
  \<^verbatim>\<open>Fabric_ClassStore_init\<close> declares.
\<close>

definition Fabric_LabelStore_init :: "endian \<Rightarrow> 64 word \<Rightarrow> Graph \<Rightarrow> Graph option" where
  "Fabric_LabelStore_init h fp g =
     (let self = label_store g;
          (file, vertex_store_offset) = Fabric_LabelStore_get_graph h g;
          size1 = vertex_store_offset - ls_offset self
      in if file \<noteq> fp then None
         else
           (let (n, f1) = Fabric_Graph_read_uint16 h (graph_file g) (uint (ls_offset self));
                (nf, f2) = Fabric_Graph_read_uint16 h f1 (uint (ls_offset self + 4));
                (lf, f3) = Fabric_Graph_read_uint16 h f2 (uint (ls_offset self + 8))
            in Some (g\<lparr>graph_file := f3,
                 label_store := self\<lparr>
                   ls_size := size1,
                   num_labels := ucast n, ls_next_free_id := ucast nf,
                   ls_last_free_id := ucast lf,
                   ls_cache := Fabric_EntityMap_new, ls_changed := Fabric_IdSet_new\<rparr>\<rparr>)))"

definition Fabric_VertexStore_init :: "Graph \<Rightarrow> Graph" where
  "Fabric_VertexStore_init g =
     g\<lparr>vertex_store := (vertex_store g)
         \<lparr>vs_size := es_offset (edge_store g) - vs_offset (vertex_store g)\<rparr>\<rparr>"

definition Fabric_EdgeStore_init :: "Graph \<Rightarrow> Graph" where
  "Fabric_EdgeStore_init g =
     g\<lparr>edge_store := (edge_store g)
         \<lparr>es_size := ps_offset (property_store g) - es_offset (edge_store g)\<rparr>\<rparr>"

definition Fabric_PropertyStore_init :: "Graph \<Rightarrow> Graph" where
  "Fabric_PropertyStore_init g =
     g\<lparr>property_store := (property_store g)
         \<lparr>ps_size := ts_offset (text_store g) - ps_offset (property_store g)\<rparr>\<rparr>"

definition Fabric_TextStore_init :: "Graph \<Rightarrow> Graph" where
  "Fabric_TextStore_init g =
     g\<lparr>text_store := (text_store g)
         \<lparr>ts_size := is_offset (index_store g) - ts_offset (text_store g)\<rparr>\<rparr>"

definition Fabric_IndexStore_init :: "Graph \<Rightarrow> Graph" where
  "Fabric_IndexStore_init g =
     g\<lparr>index_store := (index_store g)
         \<lparr>is_size := page_size (index_store g) * page_count (index_store g)\<rparr>\<rparr>"

text \<open>
  \<^verbatim>\<open>Fabric_Graph_init\<close>: reads the header field by field from the start of the file,
  initialises the stores and returns \<open>0\<close>; it has no other \<^verbatim>\<open>return\<close>.  \<open>fp\<close> is the
  \<^verbatim>\<open>FILE\<close> pointer it is given and \<open>gf\<close> the stream at that address; with a \<^verbatim>\<open>NULL\<close>
  pointer the first \<^verbatim>\<open>fseek\<close> has no defined behaviour.
\<close>

definition Fabric_Graph_init ::
  "endian \<Rightarrow> Graph \<Rightarrow> 64 word \<Rightarrow> gfile \<Rightarrow> (int \<times> Graph) option" where
  "Fabric_Graph_init h self fp gf =
     (if fp = 0 then None else
      let (fhs, f1) = Fabric_Graph_read_bytes gf 16 0;
          (ahs, f2) = Fabric_Graph_read_bytes f1 16 (-1);
          (fvn, f3) = Fabric_Graph_read_uint32 h f2 (-1);
          (avn, f4) = Fabric_Graph_read_uint32 h f3 (-1);
          (fcc, f5) = Fabric_Graph_read_uint32 h f4 (-1);
          (cso, f6) = Fabric_Graph_read_uint32 h f5 (-1);
          (lso, f7) = Fabric_Graph_read_uint32 h f6 (-1);
          (vso, f8) = Fabric_Graph_read_uint32 h f7 (-1);
          (eso, f9) = Fabric_Graph_read_uint32 h f8 (-1);
          (pso, f10) = Fabric_Graph_read_uint32 h f9 (-1);
          (tso, f11) = Fabric_Graph_read_uint32 h f10 (-1);
          (tbs, f12) = Fabric_Graph_read_uint32 h f11 (-1);
          (iso, f13) = Fabric_Graph_read_uint32 h f12 (-1);
          (ips, f14) = Fabric_Graph_read_uint32 h f13 (-1);
          (ipc, f15) = Fabric_Graph_read_uint32 h f14 (-1);
          g1 = self\<lparr>
            graph_file := f15,
            fabric_header_string := fhs,
            application_header_string := ahs,
            fabric_version_number := fvn,
            application_version_number := avn,
            file_change_counter := fcc,
            class_store := (class_store self)\<lparr>offset := cso\<rparr>,
            label_store := (label_store self)\<lparr>ls_offset := lso\<rparr>,
            vertex_store := (vertex_store self)\<lparr>vs_offset := vso\<rparr>,
            edge_store := (edge_store self)\<lparr>es_offset := eso\<rparr>,
            property_store := (property_store self)\<lparr>ps_offset := pso\<rparr>,
            text_store := (text_store self)\<lparr>ts_offset := tso, block_size := tbs\<rparr>,
            index_store := (index_store self)\<lparr>is_offset := iso, page_size := ips,
                                                page_count := ipc\<rparr>\<rparr>;
          (st, g2) = Fabric_ClassStore_init h g1
      in case Fabric_LabelStore_init h fp g2 of
           None \<Rightarrow> None
         | Some g3 \<Rightarrow>
             (let g4 = Fabric_VertexStore_init g3;
                  g5 = Fabric_EdgeStore_init g4;
                  g6 = Fabric_PropertyStore_init g5;
                  g7 = Fabric_TextStore_init g6;
                  g8 = Fabric_IndexStore_init g7
              in Some (0, g8)))"

text \<open>\<^verbatim>\<open>Fabric_load_graph\<close> returns nothing: it leaves the graph that the initialiser built.\<close>

definition Fabric_load_graph :: "endian \<Rightarrow> 64 word \<Rightarrow> gfile \<Rightarrow> Graph \<Rightarrow> Graph option" where
  "Fabric_load_graph h fp gf g = map_option snd (Fabric_Graph_init h g fp gf)"

subsection \<open>Example graphs\<close>

text \<open>
  A graph as \<^verbatim>\<open>Fabric_create_graph\<close> lays it out, with an empty class store; and a
  graph with three live classes: the root (id 1) and its children A (id 2) and B (id 3),
  created in this order, so that B is the first child and A its next sibling.  The
  objects lie at the addresses 10, 20 and 30 and are cached under their ids.
\<close>

definition class0 :: Class where
  "class0 = \<lparr>id = 0, label_id = 0, parent_id = 0, first_child_id = 0, next_child_id = 0,
              first_index_id = 0, count = 0, is_abstract = 0, incrementer = 0\<rparr>"

definition store0 :: ClassStore where
  "store0 = \<lparr>offset = 84, num_classes = 0, next_free_id = 1, last_free_id = 1,
              store_size = 65536, cache = Map.empty, changed = Fabric_IdSet_new\<rparr>"

definition graph0 :: Graph where
  "graph0 = \<lparr>
     graph_file = \<lparr>bytes = [], pos = 0\<rparr>,
     fabric_header_string = FABRIC_HEADER_STRING,
     application_header_string = replicate 16 0,
     fabric_version_number = 1,
     application_version_number = 0,
     file_change_counter = 1,
     class_store = store0,
     label_store = \<lparr>ls_offset = 65620, ls_size = 65536, num_labels = 0, ls_next_free_id = 1,
                     ls_last_free_id = 1, ls_cache = Map.empty, ls_changed = Fabric_IdSet_new\<rparr>,
     vertex_store = \<lparr>vs_offset = 131156, vs_size = 65536\<rparr>,
     edge_store = \<lparr>es_offset = 196692, es_size = 65536\<rparr>,
     property_store = \<lparr>ps_offset = 262228, ps_size = 65536\<rparr>,
     text_store = \<lparr>ts_offset = 327764, ts_size = 65536, block_size = 32\<rparr>,
     index_store = \<lparr>is_offset = 393300, is_size = 0, page_size = 65536, page_count = 0\<rparr>,
     objects = (\<lambda>a. class0),
     brk = 1\<rparr>"

definition root_class :: Class where
  "root_class = \<lparr>id = 1, label_id = 1, parent_id = 0, first_child_id = 3, next_child_id = 0,
                  first_index_id = 0, count = 0, is_abstract = 1, incrementer = 1\<rparr>"

definition class_A :: Class where
  "class_A = \<lparr>id = 2, label_id = 2, parent_id = 1, first_child_id = 0, next_child_id = 0,
               first_index_id = 0, count = 0, is_abstract = 0, incrementer = 1\<rparr>"

definition class_B :: Class where
  "class_B = \<lparr>id = 3, label_id = 3, parent_id = 1, first_child_id = 0, next_child_id = 2,
               first_index_id = 0, count = 0, is_abstract = 0, incrementer = 1\<rparr>"

definition family_graph :: Graph where
  "family_graph = graph0\<lparr>
     class_store := store0\<lparr>num_classes := 3, next_free_id := 4, last_free_id := 4,
                            cache := [1 \<mapsto> 10, 2 \<mapsto> 20, 3 \<mapsto> 30]\<rparr>,
     objects := (\<lambda>a. class0)(10 := root_class, 20 := class_A, 30 := class_B),
     brk := 31\<rparr>"

text \<open>The same graph when class A has 35 member vertices.\<close>

definition members_graph :: Graph where
  "members_graph =
     family_graph\<lparr>objects := (objects family_graph)(20 := class_A\<lparr>count := 35\<rparr>)\<rparr>"

text \<open>The same graph when the slot of class A is marked as not in use.\<close>

definition freed_graph :: Graph where
  "freed_graph =
     family_graph\<lparr>objects := (objects family_graph)(20 := class_A\<lparr>label_id := 0\<rparr>)\<rparr>"

text \<open>The class of the round-trip scenario, and a file whose header is the one that
  \<^verbatim>\<open>Fabric_create_graph\<close> writes except for one byte of the signature (\<open>v0.2\<close>).\<close>

definition s2_class :: Class where
  "s2_class = \<lparr>id = 2, label_id = 9, parent_id = 1, first_child_id = 4, next_child_id = 0,
                first_index_id = 16, count = 35, is_abstract = 0, incrementer = 37\<rparr>"

definition other_signature :: "8 word list" where
  "other_signature =
     [0x66, 0x61, 0x62, 0x72, 0x69, 0x63, 0x64, 0x62, 0x20, 0x76, 0x30, 0x2E, 0x32, 0, 0, 0]"

definition other_file :: gfile where
  "other_file = \<lparr>bytes = other_signature @ replicate 16 0 @
       be_bytes32 1 @ be_bytes32 0 @ be_bytes32 1 @ be_bytes32 84 @ be_bytes32 65620 @
       be_bytes32 131156 @ be_bytes32 196692 @ be_bytes32 262228 @ be_bytes32 327764 @
       be_bytes32 32 @ be_bytes32 393300 @ be_bytes32 65536 @ be_bytes32 0, pos = 0\<rparr>"

text \<open>
  The same file when the bytes 8 to 15 of its application header string are the address
  \<open>stream_ptr\<close> in little-endian order.
\<close>

definition stream_ptr :: "64 word" where
  "stream_ptr = 0x5555557592A0"

definition pointer_file :: gfile where
  "pointer_file = \<lparr>bytes = other_signature @
       [0, 0, 0, 0, 0, 0, 0, 0, 0xA0, 0x92, 0x75, 0x55, 0x55, 0x55, 0, 0] @
       be_bytes32 1 @ be_bytes32 0 @ be_bytes32 1 @ be_bytes32 84 @ be_bytes32 65620 @
       be_bytes32 131156 @ be_bytes32 196692 @ be_bytes32 262228 @ be_bytes32 327764 @
       be_bytes32 32 @ be_bytes32 393300 @ be_bytes32 65536 @ be_bytes32 0, pos = 0\<rparr>"

subsection \<open>The dirty set as a set\<close>

text \<open>
  The ids that a table of the id set holds, the dirty set of the class store, and the
  \<^verbatim>\<open>max_id\<close> that \<^verbatim>\<open>Fabric_ClassStore_flush\<close> computes from the size of the region.
\<close>

definition live_ids :: "32 word list \<Rightarrow> 32 word set" where
  "live_ids xs = {x \<in> set xs. x \<noteq> 0 \<and> x \<noteq> FABRIC_IDSET_TOMBSTONE}"

definition dirty_set :: "Graph \<Rightarrow> 32 word set" where
  "dirty_set g = live_ids (ids (changed (class_store g)))"

definition max_id_of :: "Graph \<Rightarrow> 16 word" where
  "max_id_of g = ucast ((store_size (class_store g) - FABRIC_CLASSSTORE_HEADER_SIZE)
                          div FABRIC_CLASS_STORAGE_SIZE)"


text \<open>
  The tables of a little-endian host after \<^verbatim>\<open>Fabric_IdSet_add\<close> of 3 and then of 1 to a
  new set, and after \<^verbatim>\<open>Fabric_IdSet_remove\<close> of 1; of a big-endian host after the add of 2.
\<close>

definition table_3 :: IdSet where
  "table_3 = \<lparr>count_ids = 1, ids =
     [0, 0, 0, 0, 0, 0, 0, 0, 0, 0, 0, 0, 0, 3, 0, 0,
      0, 0, 0, 0, 0, 0, 0, 0, 0, 0, 0, 0, 0, 0, 0, 0]\<rparr>"

definition table_3_1 :: IdSet where
  "table_3_1 = \<lparr>count_ids = 2, ids =
     [0, 0, 0, 0, 0, 0, 1, 0, 0, 0, 0, 0, 0, 3, 0, 0,
      0, 0, 0, 0, 0, 0, 0, 0, 0, 0, 0, 0, 0, 0, 0, 0]\<rparr>"


definition table_be_2 :: IdSet where
  "table_be_2 = \<lparr>count_ids = 1, ids =
     [0, 0, 0, 0, 0, 0, 0, 0, 0, 0, 0, 0, 0, 0, 0, 0,
      0, 0, 0, 0, 0, 0, 0, 0, 0, 0, 0, 2, 0, 0, 0, 0]\<rparr>"





text \<open>
  A graph whose free list is not empty: class A has been deleted (its slot is marked as
  not in use and links to the bump pointer 4), so \<open>next_free_id = 2\<close> and
  \<open>last_free_id = 4\<close>, and id 2 is dirty.
\<close>

definition freed_A :: Class where
  "freed_A = class_A\<lparr>label_id := 0, parent_id := 4\<rparr>"

definition freelist_graph :: Graph where
  "freelist_graph = graph0\<lparr>
     class_store := store0\<lparr>num_classes := 2, next_free_id := 2, last_free_id := 4,
                            cache := [1 \<mapsto> 10, 2 \<mapsto> 20, 3 \<mapsto> 30],
                            changed := table_be_2\<rparr>,
     objects := (\<lambda>a. class0)(10 := root_class, 20 := freed_A,
                                 30 := class_B\<lparr>next_child_id := 0\<rparr>),
     brk := 31\<rparr>"


text \<open>
  Flush, then read the counters back as \<^verbatim>\<open>Fabric_ClassStore_init\<close> does on the next
  load: the status of the flush and the \<open>last_free_id\<close> that the store then holds.
  \<open>header_last_field h v\<close> is what a host reads back after it wrote \<open>v\<close> with
  \<^verbatim>\<open>Fabric_Graph_write_uint16\<close>.
\<close>

definition flush_then_reload :: "endian \<Rightarrow> Graph \<Rightarrow> (error_t \<times> 16 word) option" where
  "flush_then_reload h g =
     (case Fabric_ClassStore_flush h g of
        None \<Rightarrow> None
      | Some (st, g1) \<Rightarrow>
          Some (st, last_free_id (class_store (snd (Fabric_ClassStore_init h g1)))))"

definition header_last_field :: "endian \<Rightarrow> 16 word \<Rightarrow> 16 word" where
  "header_last_field h v = (case h of BigEndian \<Rightarrow> v | LittleEndian \<Rightarrow> 0)"

text \<open>
  The class-name index that belongs to \<open>family_graph\<close>, as a lookup from names to ids; a
  view of the classes at given addresses after an operation; and the dirty table of a
  little-endian host that holds the ids 3 and 2.
\<close>

definition family_index :: "string \<Rightarrow> 16 word \<times> error_t" where
  "family_index name =
     (if name = ''Vertex'' then (1, FABRIC_OK)
      else if name = ''A'' then (2, FABRIC_OK)
      else if name = ''B'' then (3, FABRIC_OK)
      else (0, FABRIC_OK))"

definition classes_at :: "nat list \<Rightarrow> (error_t \<times> Graph) option \<Rightarrow> (error_t \<times> Class list) option" where
  "classes_at as r = map_option (\<lambda>(st, g). (st, map (objects g) as)) r"

definition table_3_2 :: IdSet where
  "table_3_2 = \<lparr>count_ids = 2, ids =
     [0, 0, 0, 0, 0, 0, 0, 0, 0, 2, 0, 0, 0, 3, 0, 0,
      0, 0, 0, 0, 0, 0, 0, 0, 0, 0, 0, 0, 0, 0, 0, 0]\<rparr>"

subsection \<open>The free list of class ids\<close>

text \<open>
  The two places where \<^verbatim>\<open>ClassStore.c\<close> changes the free list.
  \<^verbatim>\<open>Fabric_ClassStore_create_class\<close> takes an id with \<^verbatim>\<open>Fabric_ClassStore__next_id\<close>, makes
  the object with \<^verbatim>\<open>Fabric_Class_new\<close> and enters it in the cache under its id;
  \<open>allocate_class\<close> is these three calls.  \<^verbatim>\<open>Fabric_ClassStore_delete_class\<close> ends with
  \<^verbatim>\<open>Fabric_EntityMap_set(self->cache, class_id, c)\<close> and
  \<^verbatim>\<open>Fabric_ClassStore__add_free_id(self, c)\<close>; \<open>release_class\<close> is these two calls.  The
  other statements of the two functions leave \<^verbatim>\<open>next_free_id\<close>, \<^verbatim>\<open>last_free_id\<close> and the
  parent id of every other object as they are (the error paths of
  \<^verbatim>\<open>Fabric_ClassStore_create_class\<close>, which hand the new id back, apart: the sequences
  below are of calls that succeed).
\<close>

definition allocate_class :: "endian \<Rightarrow> Graph \<Rightarrow> (16 word \<times> Graph) option" where
  "allocate_class h g =
     (case Fabric_ClassStore__next_id h g of
        None \<Rightarrow> None
      | Some (class_id, g1) \<Rightarrow>
          (case Fabric_Class_new class_id g1 of
             (c, g2) \<Rightarrow>
               (case Fabric_EntityMap_set (cache (class_store g2)) (ucast class_id) c of
                  (st, cache1) \<Rightarrow>
                    Some (class_id, g2\<lparr>class_store := (class_store g2)\<lparr>cache := cache1\<rparr>\<rparr>))))"

definition release_class :: "Graph \<Rightarrow> nat \<Rightarrow> Graph option" where
  "release_class g c =
     (if c = 0 then None
      else
        (case Fabric_EntityMap_set (cache (class_store g)) (ucast (id (objects g c))) c of
           (st, cache1) \<Rightarrow>
             Fabric_ClassStore__add_free_id
               (g\<lparr>class_store := (class_store g)\<lparr>cache := cache1\<rparr>\<rparr>) c))"

text \<open>
  A sequence of allocations and deletions, run from a store and the list of the ids
  freed so far (newest first).  An allocation takes the id it returns off that list, a
  deletion puts the id of its class in front.
\<close>

datatype fl_op = Allocate | Release nat

fun run_ops :: "endian \<Rightarrow> fl_op list \<Rightarrow> Graph \<times> 16 word list \<Rightarrow> (Graph \<times> 16 word list) option" where
  "run_ops h [] s = Some s"
| "run_ops h (Allocate # ops) (g, freed) =
     (case allocate_class h g of
        None \<Rightarrow> None
      | Some (i, g1) \<Rightarrow> run_ops h ops (g1, remove1 i freed))"
| "run_ops h (Release c # ops) (g, freed) =
     (case release_class g c of
        None \<Rightarrow> None
      | Some g1 \<Rightarrow> run_ops h ops (g1, id (objects g c) # freed))"

text \<open>
  A deletion is of a class that can be deleted at that moment: the pointer is to an
  object of the heap, and the id of the object is not \<open>0\<close>, is not free already, and is
  not the id that the bump allocation hands out next (\<^verbatim>\<open>last_free_id\<close>).  The ids that
  \<open>allocate_class\<close> has handed out have these properties until the 16-bit counter
  \<^verbatim>\<open>last_free_id\<close> wraps around.
\<close>

definition releasable :: "Graph \<Rightarrow> 16 word list \<Rightarrow> nat \<Rightarrow> bool" where
  "releasable g freed c =
     (0 < c \<and> c < brk g \<and> id (objects g c) \<noteq> 0 \<and>
      id (objects g c) \<noteq> last_free_id (class_store g) \<and> id (objects g c) \<notin> set freed)"

fun legal_ops :: "endian \<Rightarrow> fl_op list \<Rightarrow> Graph \<times> 16 word list \<Rightarrow> bool" where
  "legal_ops h [] s = True"
| "legal_ops h (Allocate # ops) (g, freed) =
     (case allocate_class h g of
        None \<Rightarrow> True
      | Some (i, g1) \<Rightarrow> legal_ops h ops (g1, remove1 i freed))"
| "legal_ops h (Release c # ops) (g, freed) =
     (releasable g freed c \<and>
      (case release_class g c of
         None \<Rightarrow> True
       | Some g1 \<Rightarrow> legal_ops h ops (g1, id (objects g c) # freed)))"

text \<open>
  The link of a free id, as \<^verbatim>\<open>Fabric_ClassStore__next_id\<close> reads it: the parent-id field of
  the cached object, or of the record in the file when the id is not cached.  The chain
  from an id follows the links until it meets \<^verbatim>\<open>last_free_id\<close>; the fuel bounds its length,
  so a chain that does not end within the fuel has no value.
\<close>

definition free_link :: "endian \<Rightarrow> Graph \<Rightarrow> 16 word \<Rightarrow> 16 word option" where
  "free_link h g i =
     (let self = class_store g in
      if Fabric_EntityMap_has_key (cache self) (ucast i) then
        (let c = Fabric_EntityMap_get (cache self) (ucast i) in
         if c = 0 then None else Some (parent_id (objects g c)))
      else Some (fst (Fabric_Graph_read_uint16 h (graph_file g)
                        (uint (Fabric_ClassStore__get_id_offset self i) + 4))))"

fun free_chain :: "nat \<Rightarrow> endian \<Rightarrow> Graph \<Rightarrow> 16 word \<Rightarrow> 16 word list option" where
  "free_chain 0 h g i = None"
| "free_chain (Suc n) h g i =
     (if i = last_free_id (class_store g) then Some []
      else (case free_link h g i of
              None \<Rightarrow> None
            | Some l \<Rightarrow> map_option ((#) i) (free_chain n h g l)))"

definition free_list_inv :: "endian \<Rightarrow> Graph \<Rightarrow> 16 word list \<Rightarrow> bool" where
  "free_list_inv h g freed =
     (distinct freed \<and>
      (\<forall>j \<in> set freed. j \<noteq> 0 \<and> j \<noteq> last_free_id (class_store g) \<and>
         (\<exists>c. cache (class_store g) (ucast j) = Some c \<and> 0 < c \<and> c < brk g \<and>
              id (objects g c) = j)) \<and>
      free_chain (Suc (length freed)) h g (next_free_id (class_store g)) = Some freed)"

text \<open>What a run leaves: the ids that are free, and the chain that starts at
  \<^verbatim>\<open>next_free_id\<close>.\<close>

definition freed_after :: "endian \<Rightarrow> fl_op list \<Rightarrow> Graph \<Rightarrow> 16 word list option" where
  "freed_after h ops g = map_option snd (run_ops h ops (g, []))"

definition chain_after :: "endian \<Rightarrow> fl_op list \<Rightarrow> Graph \<Rightarrow> 16 word list option" where
  "chain_after h ops g =
     (case run_ops h ops (g, []) of
        None \<Rightarrow> None
      | Some (g', freed) \<Rightarrow>
          free_chain (Suc (length freed)) h g' (next_free_id (class_store g')))"

text \<open>
  A store whose counter is about to wrap around: \<open>0xFFFF\<close> is the next id, the free list
  is empty, and class A (id 2) is live.
\<close>

definition wrap_graph :: Graph where
  "wrap_graph = graph0\<lparr>
     class_store := store0\<lparr>num_classes := 65534, next_free_id := 0xFFFF, last_free_id := 0xFFFF,
                            cache := [2 \<mapsto> 20]\<rparr>,
     objects := (\<lambda>a. class0)(20 := class_A),
     brk := 31\<rparr>"

subsection \<open>Slots of the class store in the file\<close>



section \<open>Properties\<close>

lemmas error_codes =
  FABRIC_OK_def FABRIC_OUT_OF_MEMORY_def FABRIC_CLASSSTORE_INVALID_ID_def
  FABRIC_CLASS_DOESNT_EXIST_def FABRIC_DUPLICATE_CLASSNAME_def
  FABRIC_CANT_DELETE_CLASS_HAS_CHILDREN_def FABRIC_CANT_DELETE_CLASS_HAS_MEMBERS_def
  FABRIC_CLASSSTORE_NEEDS_RESIZE_def FABRIC_CLASS_INVALID_ID_def

lemma family_objects:
  "objects family_graph 10 = root_class"
  "objects family_graph 20 = class_A"
  "objects family_graph 30 = class_B"
  by (simp_all add: family_graph_def)

subsection \<open>Bytes, words and the file\<close>

lemma recompose16:
  "push_bit 8 (ucast (ucast (drop_bit 8 x) :: 8 word)) OR ucast (ucast x :: 8 word) = (x :: 16 word)"
  by (rule bit_word_eqI) (auto simp: bit_simps)

lemma recompose32:
  "push_bit 24 (ucast (ucast (drop_bit 24 x) :: 8 word)) OR
   push_bit 16 (ucast (ucast (drop_bit 16 x) :: 8 word)) OR
   push_bit 8 (ucast (ucast (drop_bit 8 x) :: 8 word)) OR ucast (ucast x :: 8 word) = (x :: 32 word)"
  apply (rule bit_word_eqI)
  apply (auto simp: bit_simps)
  subgoal for n by (cases "16 \<le> n") auto
  subgoal for n by (cases "24 \<le> n"; cases "16 \<le> n") auto
  done

lemma be_val16_bytes [simp]: "be_val16 (be_bytes16 x) = x"
  by (simp add: be_bytes16_def recompose16)

lemma be_val32_bytes [simp]: "be_val32 (be_bytes32 x) = x"
  by (simp add: be_bytes32_def recompose32)

lemma mem_val16_bytes [simp]: "mem_val16 h (mem_bytes16 h x) = x"
  by (cases h) (simp_all add: mem_val16_def mem_bytes16_def)

lemma mem_val32_bytes [simp]: "mem_val32 h (mem_bytes32 h x) = x"
  by (cases h) (simp_all add: mem_val32_def mem_bytes32_def)

lemma be_bytes16_val: "be_bytes16 (push_bit 8 (ucast a) OR ucast b) = [a, b]"
  unfolding be_bytes16_def
  apply simp
  apply (intro conjI; rule bit_word_eqI)
   apply (auto simp: bit_simps dest: bit_imp_le_length)
  done

lemma be_bytes32_val:
  "be_bytes32 (push_bit 24 (ucast a) OR push_bit 16 (ucast b) OR push_bit 8 (ucast c) OR ucast d) =
     [a, b, c, d]"
  unfolding be_bytes32_def
  apply simp
  apply (intro conjI; rule bit_word_eqI)
     apply (auto simp: bit_simps dest: bit_imp_le_length)
  done

lemma length2E: "length bs = 2 \<Longrightarrow> (\<And>a b. bs = [a, b] \<Longrightarrow> P) \<Longrightarrow> P"
  by (cases bs; simp; case_tac list; simp)

lemma length4E: "length bs = 4 \<Longrightarrow> (\<And>a b c d. bs = [a, b, c, d] \<Longrightarrow> P) \<Longrightarrow> P"
  apply (cases bs; simp)
  subgoal for a l1
    apply (cases l1; simp)
    subgoal for b l2
      apply (cases l2; simp)
      subgoal for c l3 by (cases l3; simp)
      done
    done
  done

lemma mem_bytes16_val: "length bs = 2 \<Longrightarrow> mem_bytes16 h (mem_val16 h bs) = bs"
  by (erule length2E; cases h) (simp_all add: mem_bytes16_def mem_val16_def be_bytes16_val)

lemma mem_bytes32_val: "length bs = 4 \<Longrightarrow> mem_bytes32 h (mem_val32 h bs) = bs"
  by (erule length4E; cases h) (simp_all add: mem_bytes32_def mem_val32_def be_bytes32_val)

lemma mem_bytes32_htobe32: "mem_bytes32 h (htobe32 h x) = be_bytes32 x"
  by (simp add: htobe32_def mem_bytes32_val be_bytes32_def)

lemma betoh32_mem_val32: "length bs = 4 \<Longrightarrow> betoh32 h (mem_val32 h bs) = be_val32 bs"
  by (simp add: betoh32_def mem_bytes32_val)

lemma betoh16_mem_val16: "length bs = 2 \<Longrightarrow> betoh16 h (mem_val16 h bs) = be_val16 bs"
  by (simp add: betoh16_def mem_bytes16_val)

lemma pos_fold_fputc: "pos (fold fputc bs f) = pos f + length bs"
  by (induction bs arbitrary: f) (simp_all add: fputc_def Let_def)

lemma bytes_fold_fputc_below:
  "i < pos f \<Longrightarrow> i < length (bytes f) \<Longrightarrow>
   i < length (bytes (fold fputc bs f)) \<and> bytes (fold fputc bs f) ! i = bytes f ! i"
proof (induction bs arbitrary: f)
  case Nil
  then show ?case by simp
next
  case (Cons b bs)
  have "i < pos (fputc b f)" "i < length (bytes (fputc b f))" "bytes (fputc b f) ! i = bytes f ! i"
    using Cons.prems by (auto simp: fputc_def Let_def nth_append)
  with Cons.IH [of "fputc b f"] show ?case by simp
qed

lemma fputc_at: "pos f < length (bytes (fputc b f)) \<and> bytes (fputc b f) ! pos f = b \<and> pos (fputc b f) = pos f + 1"
  by (auto simp: fputc_def Let_def nth_append)

lemma read_after_write:
  "read_loop (length bs) ((fold fputc bs f)\<lparr>pos := pos f\<rparr>) = (bs, fold fputc bs f)"
proof (induction bs arbitrary: f)
  case Nil
  then show ?case by simp
next
  case (Cons b bs)
  let ?f1 = "fputc b f"
  let ?g = "fold fputc bs ?f1"
  have p: "pos f < pos ?f1" "pos f < length (bytes ?f1)" "bytes ?f1 ! pos f = b" "pos ?f1 = pos f + 1"
    using fputc_at [of f b] by auto
  from bytes_fold_fputc_below [OF p(1) p(2), of bs]
  have q: "pos f < length (bytes ?g)" "bytes ?g ! pos f = b"
    using p(3) by auto
  have "fgetc (?g\<lparr>pos := pos f\<rparr>) = (b, ?g\<lparr>pos := pos ?f1\<rparr>)"
    using q p(4) by (simp add: fgetc_def)
  then show ?case using Cons.IH [of ?f1] by simp
qed

lemma read_bytes_write_bytes:
  assumes "0 \<le> off" and "n = length bs"
  shows "Fabric_Graph_read_bytes (Fabric_Graph_write_bytes f bs off) n off =
         (bs, Fabric_Graph_write_bytes f bs off)"
proof -
  let ?f0 = "f\<lparr>pos := nat off\<rparr>"
  have w: "Fabric_Graph_write_bytes f bs off = fold fputc bs ?f0"
    using assms by (simp add: Fabric_Graph_write_bytes_def fseek_set_def)
  have "(fold fputc bs ?f0)\<lparr>pos := nat off\<rparr> = (fold fputc bs ?f0)\<lparr>pos := pos ?f0\<rparr>" by simp
  then show ?thesis
    using assms read_after_write [of bs ?f0]
    by (simp add: Fabric_Graph_read_bytes_def fseek_set_def w)
qed


lemma write_uint32_bytes:
  "Fabric_Graph_write_uint32 h f v off = Fabric_Graph_write_bytes f (be_bytes32 v) off"
  by (simp add: Fabric_Graph_write_uint32_def mem_bytes32_htobe32)

lemma length_be_bytes [simp]: "length (be_bytes32 v) = 4" "length (be_bytes16 w) = 2"
  by (simp_all add: be_bytes32_def be_bytes16_def)

lemma read_write_uint32:
  assumes "0 \<le> off"
  shows "fst (Fabric_Graph_read_uint32 h (Fabric_Graph_write_uint32 h f v off) off) = v"
  using read_bytes_write_bytes [OF assms, of 4 "be_bytes32 v" f]
  by (simp add: write_uint32_bytes Fabric_Graph_read_uint32_def betoh32_mem_val32)

lemma low_half_htobe32_little: "(ucast (htobe32 LittleEndian (ucast (v :: 16 word))) :: 16 word) = 0"
  unfolding htobe32_def mem_val32_def be_bytes32_def
  apply simp
  apply (rule bit_word_eqI)
  apply (auto simp: bit_simps dest: bit_imp_le_length)
  done

lemma htobe32_big: "htobe32 BigEndian x = x"
  by (simp add: htobe32_def mem_val32_def)

lemma write_uint16_little:
  "Fabric_Graph_write_uint16 LittleEndian f v off = Fabric_Graph_write_bytes f [0, 0] off"
  by (simp add: Fabric_Graph_write_uint16_def low_half_htobe32_little mem_bytes16_def be_bytes16_def)

lemma ucast16_32_16: "(ucast (ucast (v :: 16 word) :: 32 word) :: 16 word) = v"
  by (rule bit_word_eqI) (auto simp: bit_simps)

lemma write_uint16_big:
  "Fabric_Graph_write_uint16 BigEndian f v off = Fabric_Graph_write_bytes f (be_bytes16 v) off"
  by (simp add: Fabric_Graph_write_uint16_def htobe32_big mem_bytes16_def ucast16_32_16)

lemma read_write_uint16_big:
  assumes "0 \<le> off"
  shows "fst (Fabric_Graph_read_uint16 BigEndian (Fabric_Graph_write_uint16 BigEndian f v off) off) = v"
  using read_bytes_write_bytes [OF assms, of 2 "be_bytes16 v" f]
  by (simp add: write_uint16_big Fabric_Graph_read_uint16_def betoh16_mem_val16)

lemma read_write_uint16_little:
  assumes "0 \<le> off"
  shows "fst (Fabric_Graph_read_uint16 LittleEndian (Fabric_Graph_write_uint16 LittleEndian f v off) off) = 0"
  using read_bytes_write_bytes [OF assms, of 2 "[0, 0]" f]
  by (simp add: write_uint16_little Fabric_Graph_read_uint16_def betoh16_mem_val16)

subsection \<open>Deleting a class: the rejections\<close>

text \<open>
  Claim C4.  For a live class (label id not zero) given by a pointer \<open>c\<close>:
  when its first-child id is not zero, \<^verbatim>\<open>Fabric_ClassStore_delete_class\<close> returns
  \<^verbatim>\<open>FABRIC_CANT_DELETE_CLASS_HAS_CHILDREN\<close>; when it has no child and its member count is
  not zero, it returns \<^verbatim>\<open>FABRIC_CANT_DELETE_CLASS_HAS_MEMBERS\<close>; and in both cases the
  graph after the call (class objects and their links, counters, free list, cache,
  dirty set, file) is the graph before it.
\<close>

theorem delete_class_rejects_children_and_members:
  assumes "c \<noteq> 0" and "label_id (objects g c) \<noteq> 0"
  shows "(first_child_id (objects g c) \<noteq> 0 \<longrightarrow>
            Fabric_ClassStore_delete_class h g c =
              Some (FABRIC_CANT_DELETE_CLASS_HAS_CHILDREN, g)) \<and>
         (first_child_id (objects g c) = 0 \<and> count (objects g c) \<noteq> 0 \<longrightarrow>
            Fabric_ClassStore_delete_class h g c =
              Some (FABRIC_CANT_DELETE_CLASS_HAS_MEMBERS, g))"
  using assms
  by (simp add: Fabric_ClassStore_delete_class_def Fabric_Class_is_in_use_def
      Fabric_Class_has_child_classes_def Fabric_Class_has_members_def word_greater_zero_iff)

theorem delete_class_rejects_witness:
  "(10::nat) \<noteq> 0 \<and> label_id (objects family_graph 10) \<noteq> 0 \<and>
   first_child_id (objects family_graph 10) \<noteq> 0 \<and>
   Fabric_ClassStore_delete_class LittleEndian family_graph 10 =
     Some (FABRIC_CANT_DELETE_CLASS_HAS_CHILDREN, family_graph) \<and>
   (20::nat) \<noteq> 0 \<and> label_id (objects members_graph 20) \<noteq> 0 \<and>
   first_child_id (objects members_graph 20) = 0 \<and> count (objects members_graph 20) \<noteq> 0 \<and>
   Fabric_ClassStore_delete_class LittleEndian members_graph 20 =
     Some (FABRIC_CANT_DELETE_CLASS_HAS_MEMBERS, members_graph)"
proof -
  have a: "label_id (objects family_graph 10) \<noteq> 0" "first_child_id (objects family_graph 10) \<noteq> 0"
    by (simp_all add: family_objects root_class_def)
  have b: "label_id (objects members_graph 20) \<noteq> 0"
    "first_child_id (objects members_graph 20) = 0" "count (objects members_graph 20) \<noteq> 0"
    by (simp_all add: members_graph_def class_A_def)
  show ?thesis
    using a b
      delete_class_rejects_children_and_members [of 10 family_graph LittleEndian]
      delete_class_rejects_children_and_members [of 20 members_graph LittleEndian]
    by simp
qed

subsection \<open>Deleting a class that is not in use\<close>

text \<open>
  Claim C10.  \<^verbatim>\<open>Fabric_ClassStore_delete_class\<close> on a class record that is not in use
  (label id zero, a freed slot) returns \<^verbatim>\<open>FABRIC_OK\<close> and leaves the graph, and so the
  class store, as it was: deleting a class that does not exist is reported as success.
\<close>

theorem delete_class_not_in_use_is_ok:
  assumes "c \<noteq> 0" and "label_id (objects g c) = 0"
  shows "Fabric_ClassStore_delete_class h g c = Some (FABRIC_OK, g)"
  using assms
  by (simp add: Fabric_ClassStore_delete_class_def Fabric_Class_is_in_use_def)

theorem delete_class_not_in_use_witness:
  "(20::nat) \<noteq> 0 \<and> label_id (objects freed_graph 20) = 0 \<and>
   Fabric_ClassStore_delete_class BigEndian freed_graph 20 = Some (FABRIC_OK, freed_graph)"
proof -
  have a: "label_id (objects freed_graph 20) = 0"
    by (simp add: freed_graph_def)
  show ?thesis
    using a delete_class_not_in_use_is_ok [of 20 freed_graph BigEndian] by simp
qed

subsection \<open>Writing and reading integers\<close>

text \<open>
  The 32-bit pair reads back what was written, on either host, and so does the 16-bit
  pair on a big-endian host.  On a little-endian host \<^verbatim>\<open>Fabric_Graph_write_uint16\<close>
  writes two zero bytes whatever the value is.
\<close>

text \<open>
  Claim C6, at the input where the code departs from it: on a little-endian host,
  writing the 16-bit value \<open>0x0102\<close> at offset 0 of an empty file leaves the bytes
  \<open>00 00\<close> there, and reading at offset 0 returns \<open>0\<close>, not the value written.
\<close>

theorem write_uint16_little_endian_reads_back_zero:
  "bytes (Fabric_Graph_write_uint16 LittleEndian \<lparr>bytes = [], pos = 0\<rparr> 0x0102 0) = [0, 0] \<and>
   fst (Fabric_Graph_read_uint16 LittleEndian
          (Fabric_Graph_write_uint16 LittleEndian \<lparr>bytes = [], pos = 0\<rparr> 0x0102 0) 0) = 0"
  using read_write_uint16_little [of 0 "\<lparr>bytes = [], pos = 0\<rparr>" "0x0102"]
  by (simp add: write_uint16_little Fabric_Graph_write_bytes_def fseek_set_def fputc_def)

subsection \<open>Encoding and decoding a class\<close>

lemma class_roundtrip_big:
  assumes "id r \<noteq> 0"
  shows "Fabric_Class_init BigEndian r (Fabric_Class_load_bytes BigEndian r) = (FABRIC_OK, r)"
  using assms
  by (simp add: Fabric_Class_init_def Fabric_Class_load_bytes_def mem_bytes32_def mem_bytes16_def
      betoh32_mem_val32 betoh16_mem_val16 be_bytes32_def be_bytes16_def
      recompose32 recompose16)

lemma s2_bytes_big:
  "Fabric_Class_load_bytes BigEndian s2_class =
     [0, 0, 0, 9, 0, 1, 0, 4, 0, 0, 0, 16, 0, 0, 0, 35, 0, 0, 0, 0, 37]"
  by (simp add: Fabric_Class_load_bytes_def s2_class_def mem_bytes32_def mem_bytes16_def
      be_bytes32_def be_bytes16_def)

text \<open>
  Claim C5, at the input where the code departs from it: on a little-endian host the
  class of the scenario (label 9, parent 1, first child 4, next child 0, first index 16,
  count 35, not abstract, incrementer 37) is encoded with every field in host order, so
  the bytes start \<open>09 00 00 00 | 01 00\<close> and not \<open>00 00 00 09 | 00 01\<close>, and decoding them
  yields a class whose label id is \<open>0x09000000\<close>, not the class that was encoded.
\<close>

theorem class_encoding_little_endian_host:
  "Fabric_Class_load_bytes LittleEndian s2_class =
     [9, 0, 0, 0, 1, 0, 4, 0, 0, 0, 16, 0, 35, 0, 0, 0, 0, 37, 0, 0, 0] \<and>
   Fabric_Class_init LittleEndian s2_class (Fabric_Class_load_bytes LittleEndian s2_class) =
     (FABRIC_OK, s2_class\<lparr>label_id := 0x09000000, parent_id := 0x0100, first_child_id := 0x0400,
        first_index_id := 0x1000, count := 0x23000000, incrementer := 0x25000000\<rparr>)"
  by (simp add: Fabric_Class_init_def Fabric_Class_load_bytes_def s2_class_def mem_bytes32_def
      mem_bytes16_def be_bytes32_def be_bytes16_def betoh32_def betoh16_def mem_val32_def
      mem_val16_def)


subsection \<open>Loading a graph\<close>

lemma read_loop_numeral [simp]:
  "read_loop (numeral k) f =
     (let (b, f1) = fgetc f; (bs, f2) = read_loop (pred_numeral k) f1 in (b # bs, f2))"
  by (simp add: numeral_eq_Suc)

lemma replicate_numeral_unfold: "replicate (numeral k) x = x # replicate (pred_numeral k) x"
  by (simp add: numeral_eq_Suc)

lemma other_file_header: "fst (Fabric_Graph_read_bytes other_file 16 0) = other_signature"
  by (simp add: Fabric_Graph_read_bytes_def other_file_def fseek_set_def fgetc_def other_signature_def)

lemma other_file_differs: "take 16 (bytes other_file) \<noteq> FABRIC_HEADER_STRING"
  by (simp add: other_file_def other_signature_def FABRIC_HEADER_STRING_def)

lemma graph_init_result:
  "Fabric_Graph_init h self fp gf =
     (if fp = 0 \<or>
         mem_val64 h (take 8 (drop 8
           (fst (Fabric_Graph_read_bytes (snd (Fabric_Graph_read_bytes gf 16 0)) 16 (-1))))) \<noteq> fp
      then None
      else Some (0, the (Fabric_load_graph h fp gf self)))"
  by (simp add: Fabric_Graph_init_def Fabric_load_graph_def Fabric_ClassStore_init_def
      Fabric_LabelStore_init_def Fabric_LabelStore_get_graph_def split_beta Let_def)

lemma graph_init_header:
  assumes "Fabric_Graph_init h self fp gf = Some (r, g)"
  shows "fabric_header_string g = fst (Fabric_Graph_read_bytes gf 16 0)"
  using assms
  by (simp add: Fabric_Graph_init_def Fabric_ClassStore_init_def
      Fabric_LabelStore_init_def Fabric_LabelStore_get_graph_def Fabric_VertexStore_init_def
      Fabric_EdgeStore_init_def Fabric_PropertyStore_init_def Fabric_TextStore_init_def
      Fabric_IndexStore_init_def split_beta Let_def split: if_splits)
     auto

lemma other_file_application_header:
  "fst (Fabric_Graph_read_bytes (snd (Fabric_Graph_read_bytes other_file 16 0)) 16 (-1)) =
     replicate 16 0"
  by (simp add: Fabric_Graph_read_bytes_def other_file_def fseek_set_def fgetc_def
      other_signature_def replicate_numeral_unfold)

lemma pointer_file_header: "fst (Fabric_Graph_read_bytes pointer_file 16 0) = other_signature"
  by (simp add: Fabric_Graph_read_bytes_def pointer_file_def fseek_set_def fgetc_def
      other_signature_def)

lemma pointer_file_application_header:
  "fst (Fabric_Graph_read_bytes (snd (Fabric_Graph_read_bytes pointer_file 16 0)) 16 (-1)) =
     [0, 0, 0, 0, 0, 0, 0, 0, 0xA0, 0x92, 0x75, 0x55, 0x55, 0x55, 0, 0]"
  by (simp add: Fabric_Graph_read_bytes_def pointer_file_def fseek_set_def fgetc_def
      other_signature_def)

lemma pointer_file_differs: "take 16 (bytes pointer_file) \<noteq> FABRIC_HEADER_STRING"
  by (simp add: pointer_file_def other_signature_def FABRIC_HEADER_STRING_def)

lemma other_file_pointer:
  "mem_val64 h (take 8 (drop 8
     (fst (Fabric_Graph_read_bytes (snd (Fabric_Graph_read_bytes other_file 16 0)) 16 (-1))))) = 0"
  unfolding other_file_application_header
  by (cases h) (simp_all add: mem_val64_def be_val64_def replicate_numeral_unfold)

lemma pointer_file_pointer:
  "mem_val64 LittleEndian (take 8 (drop 8
     (fst (Fabric_Graph_read_bytes (snd (Fabric_Graph_read_bytes pointer_file 16 0)) 16 (-1))))) =
   stream_ptr"
  unfolding pointer_file_application_header
  by (simp add: mem_val64_def be_val64_def stream_ptr_def)

lemma stream_ptr_not_null: "stream_ptr \<noteq> 0"
  by (simp add: stream_ptr_def)

lemma pointer_file_init:
  "Fabric_Graph_init LittleEndian graph0 stream_ptr pointer_file =
     Some (0, the (Fabric_load_graph LittleEndian stream_ptr pointer_file graph0))"
  by (simp add: graph_init_result pointer_file_pointer stream_ptr_not_null)

text \<open>
  Claim C9, at inputs where the code departs from it.  \<^verbatim>\<open>Fabric_Graph_init\<close> stores the
  first 16 bytes of the file in the graph and compares them with nothing.  The file
  \<open>other_file\<close> starts with a signature other than \<^verbatim>\<open>"fabricdb v0.1"\<close>, and no failure is
  reported for it: the call initialises the class store from the file and then does not
  return, because the initialiser of the label store takes its stream from the
  application header string, which is all zero here (a \<^verbatim>\<open>NULL\<close> stream).  The file
  \<open>pointer_file\<close> starts with the same foreign signature and holds the address of the
  stream where the label store looks for it: for this file \<^verbatim>\<open>Fabric_Graph_init\<close> returns
  \<open>0\<close>, which is success, and leaves a graph that carries the foreign signature.
\<close>

theorem graph_init_does_not_check_signature:
  "take 16 (bytes other_file) \<noteq> FABRIC_HEADER_STRING \<and>
   Fabric_Graph_init h self fp other_file = None \<and>
   take 16 (bytes pointer_file) \<noteq> FABRIC_HEADER_STRING \<and>
   map_option fst (Fabric_Graph_init LittleEndian graph0 stream_ptr pointer_file) = Some 0 \<and>
   map_option fabric_header_string
     (Fabric_load_graph LittleEndian stream_ptr pointer_file graph0) = Some other_signature"
proof -
  have 1: "Fabric_Graph_init h self fp other_file = None"
    by (simp add: graph_init_result other_file_pointer)
  from graph_init_header [OF pointer_file_init]
  have 2: "fabric_header_string (the (Fabric_load_graph LittleEndian stream_ptr pointer_file graph0))
             = other_signature"
    by (simp add: pointer_file_header)
  have 3: "Fabric_load_graph LittleEndian stream_ptr pointer_file graph0 =
             Some (the (Fabric_load_graph LittleEndian stream_ptr pointer_file graph0))"
    by (subst Fabric_load_graph_def, subst pointer_file_init) simp
  have 4: "map_option fabric_header_string
     (Fabric_load_graph LittleEndian stream_ptr pointer_file graph0) = Some other_signature"
    by (subst 3) (simp add: 2)
  from 1 4 show ?thesis
    by (simp add: other_file_differs pointer_file_differs pointer_file_init)
qed

subsection \<open>Evaluating the probes of the id set\<close>

lemma has_probe_numeral [simp]:
  "has_probe (numeral k) xs p i =
     (if xs ! p = 0 then Some False
      else if xs ! p = i then Some True
      else has_probe (pred_numeral k) xs ((p + 1) mod length xs) i)"
  by (simp add: numeral_eq_Suc)

lemma free_probe_numeral [simp]:
  "free_probe (numeral k) xs p =
     (if xs ! p \<noteq> 0 \<and> xs ! p \<noteq> FABRIC_IDSET_TOMBSTONE
      then free_probe (pred_numeral k) xs ((p + 1) mod length xs)
      else Some p)"
  by (simp add: numeral_eq_Suc)

lemma remove_probe_numeral [simp]:
  "remove_probe (numeral k) xs p i =
     (if xs ! p = 0 then Some None
      else if xs ! p = i then Some (Some p)
      else remove_probe (pred_numeral k) xs ((p + 1) mod length xs) i)"
  by (simp add: numeral_eq_Suc)

lemma take_ids_numeral [simp]:
  "take_ids (numeral k) [] = None"
  "take_ids (numeral k) (x # xs) =
     (if x = 0 \<or> x = FABRIC_IDSET_TOMBSTONE then take_ids (numeral k) xs
      else map_option ((#) x) (take_ids (pred_numeral k) xs))"
  by (simp_all add: numeral_eq_Suc)

lemmas idset_defs = Fabric_IdSet_new_def Fabric_IdSet_new_with_capacity_def FABRIC_IDSET_DEFAULT_CAPACITY_def
  Fabric_IdSet_add_def Fabric_IdSet_has_def Fabric_IdSet__add_no_checks_def over_maxload_def
  Fabric_IdSet_remove_def Fabric_IdSet_to_array_def Fabric_IdSet_is_empty_def FABRIC_IDSET_TOMBSTONE_def
  start_pos_def hash_uint32_def hash_def hash_step_def mem_bytes32_def be_bytes32_def

lemma list_update_numeral [simp]: "(x # xs)[numeral k := y] = x # xs[pred_numeral k := y]"
  by (simp add: numeral_eq_Suc)

lemma add_3_to_new_set: "Fabric_IdSet_add LittleEndian Fabric_IdSet_new 3 = Some (FABRIC_OK, table_3)"
  by (simp add: idset_defs table_3_def replicate_numeral_unfold)

lemma add_1_to_table_3: "Fabric_IdSet_add LittleEndian table_3 1 = Some (FABRIC_OK, table_3_1)"
  by (simp add: idset_defs table_3_def table_3_1_def)



lemma add_2_to_new_set_big: "Fabric_IdSet_add BigEndian Fabric_IdSet_new 2 = Some (FABRIC_OK, table_be_2)"
  by (simp add: idset_defs table_be_2_def replicate_numeral_unfold)

lemma array_of_table_be_2: "Fabric_IdSet_to_array table_be_2 = Some [2]"
  by (simp add: idset_defs table_be_2_def)

lemma remove_2_from_table_be_2: "Fabric_IdSet_remove BigEndian table_be_2 2 \<noteq> None"
  by (simp add: idset_defs table_be_2_def)


subsection \<open>Flush that needs a resize\<close>


lemma remove_probe_found:
  "remove_probe n xs p i = Some (Some q) \<Longrightarrow> p < length xs \<Longrightarrow> q < length xs \<and> xs ! q = i"
proof (induction n arbitrary: p)
  case 0
  then show ?case by simp
next
  case (Suc n)
  have "0 < length xs" using Suc.prems(2) by (cases xs) auto
  then have "(p + 1) mod length xs < length xs" by (rule mod_less_divisor)
  with Suc show ?case by (auto split: if_splits)
qed

lemma live_ids_tombstone:
  assumes "q < length xs"
  shows "live_ids (xs[q := FABRIC_IDSET_TOMBSTONE]) \<subseteq> live_ids xs"
    and "live_ids xs - {xs ! q} \<subseteq> live_ids (xs[q := FABRIC_IDSET_TOMBSTONE])"
proof -
  show "live_ids (xs[q := FABRIC_IDSET_TOMBSTONE]) \<subseteq> live_ids xs"
    using set_update_subset_insert [of xs q FABRIC_IDSET_TOMBSTONE]
    by (auto simp: live_ids_def)
  show "live_ids xs - {xs ! q} \<subseteq> live_ids (xs[q := FABRIC_IDSET_TOMBSTONE])"
  proof
    fix x assume "x \<in> live_ids xs - {xs ! q}"
    then have x: "x \<in> set xs" "x \<noteq> 0" "x \<noteq> FABRIC_IDSET_TOMBSTONE" "x \<noteq> xs ! q"
      by (auto simp: live_ids_def)
    then obtain j where j: "j < length xs" "xs ! j = x" by (auto simp: in_set_conv_nth)
    with x(4) have "j \<noteq> q" by auto
    with j have "xs[q := FABRIC_IDSET_TOMBSTONE] ! j = x" by simp
    with j(1) have "x \<in> set (xs[q := FABRIC_IDSET_TOMBSTONE])"
      by (metis length_list_update nth_mem)
    with x show "x \<in> live_ids (xs[q := FABRIC_IDSET_TOMBSTONE])" by (simp add: live_ids_def)
  qed
qed

lemma remove_live_ids:
  assumes "Fabric_IdSet_remove h s i = Some s'"
  shows "live_ids (ids s') \<subseteq> live_ids (ids s) \<and> live_ids (ids s) - {i} \<subseteq> live_ids (ids s')"
proof (cases "remove_probe (length (ids s)) (ids s) (start_pos h s i) i")
  case None
  with assms show ?thesis by (simp add: Fabric_IdSet_remove_def)
next
  case (Some r)
  show ?thesis
  proof (cases r)
    case None
    with Some assms show ?thesis by (auto simp: Fabric_IdSet_remove_def)
  next
    case (Some q)
    with \<open>remove_probe (length (ids s)) (ids s) (start_pos h s i) i = Some r\<close>
    have rp: "remove_probe (length (ids s)) (ids s) (start_pos h s i) i = Some (Some q)" by simp
    then have "length (ids s) \<noteq> 0" by (cases "length (ids s)") auto
    then have "start_pos h s i < length (ids s)" by (simp add: start_pos_def)
    from remove_probe_found [OF rp this] have q: "q < length (ids s)" "ids s ! q = i" by auto
    from rp assms have "ids s' = (ids s)[q := FABRIC_IDSET_TOMBSTONE]"
      by (auto simp: Fabric_IdSet_remove_def)
    with live_ids_tombstone [OF q(1)] q(2) show ?thesis by auto
  qed
qed

lemma flush_loop_needs_resize:
  "flush_loop h m cs g = Some (Inl (st, g')) \<Longrightarrow>
     st = FABRIC_CLASSSTORE_NEEDS_RESIZE \<and>
     dirty_set g' \<subseteq> dirty_set g \<and>
     (\<forall>x \<in> dirty_set g. ucast m < x \<longrightarrow> x \<in> dirty_set g') \<and>
     (\<exists>x \<in> set cs. ucast m < x)"
proof (induction cs arbitrary: g)
  case Nil
  then show ?case by simp
next
  case (Cons c cs)
  show ?case
  proof (cases "ucast m < c")
    case True
    with Cons.prems show ?thesis by (simp add: Let_def)
  next
    case False
    with Cons.prems obtain ch where
      ch: "Fabric_IdSet_remove h (changed (class_store g)) c = Some ch"
      and rest: "flush_loop h m cs
           (g\<lparr>graph_file := Fabric_Graph_write_bytes (graph_file g)
                 (Fabric_Class_load_bytes h
                    (objects g (Fabric_EntityMap_get (cache (class_store g)) c)))
                 (uint (Fabric_ClassStore__get_id_offset (class_store g) (ucast c))),
              class_store := (class_store g)\<lparr>changed := ch\<rparr>\<rparr>) = Some (Inl (st, g'))"
      by (auto simp: Let_def split: if_splits option.splits)
    let ?g1 = "g\<lparr>graph_file := Fabric_Graph_write_bytes (graph_file g)
                 (Fabric_Class_load_bytes h
                    (objects g (Fabric_EntityMap_get (cache (class_store g)) c)))
                 (uint (Fabric_ClassStore__get_id_offset (class_store g) (ucast c))),
              class_store := (class_store g)\<lparr>changed := ch\<rparr>\<rparr>"
    from remove_live_ids [OF ch]
    have d: "dirty_set ?g1 \<subseteq> dirty_set g" "dirty_set g - {c} \<subseteq> dirty_set ?g1"
      by (auto simp: dirty_set_def)
    from Cons.IH [OF rest] have ih:
      "st = FABRIC_CLASSSTORE_NEEDS_RESIZE" "dirty_set g' \<subseteq> dirty_set ?g1"
      "\<forall>x \<in> dirty_set ?g1. ucast m < x \<longrightarrow> x \<in> dirty_set g'"
      "\<exists>x \<in> set cs. ucast m < x" by auto
    have "\<forall>x \<in> dirty_set g. ucast m < x \<longrightarrow> x \<in> dirty_set g'"
    proof (intro ballI impI)
      fix x assume x: "x \<in> dirty_set g" "ucast m < x"
      with False have "x \<noteq> c" by auto
      with x d(2) have "x \<in> dirty_set ?g1" by auto
      with ih(3) x(2) show "x \<in> dirty_set g'" by auto
    qed
    with ih d show ?thesis by auto
  qed
qed












lemma length_load_bytes [simp]: "length (Fabric_Class_load_bytes h c) = 21"
  by (cases h) (simp_all add: Fabric_Class_load_bytes_def mem_bytes32_def mem_bytes16_def)
















subsection \<open>Flush and reload of the counters\<close>

lemma bytes_read_loop: "bytes (snd (read_loop n f)) = bytes f"
  by (induction n arbitrary: f) (simp_all add: fgetc_def split_beta Let_def)

lemma bytes_read_bytes: "bytes (snd (Fabric_Graph_read_bytes f n off)) = bytes f"
  by (simp add: Fabric_Graph_read_bytes_def bytes_read_loop fseek_set_def)

lemma bytes_read_uint16: "bytes (snd (Fabric_Graph_read_uint16 h f off)) = bytes f"
  using bytes_read_bytes [of f 2 off] by (simp add: Fabric_Graph_read_uint16_def split_beta)

lemma read_uint16_bytes_only:
  assumes "0 \<le> off" and "bytes f = bytes f'"
  shows "fst (Fabric_Graph_read_uint16 h f off) = fst (Fabric_Graph_read_uint16 h f' off)"
proof -
  have "f\<lparr>pos := nat off\<rparr> = f'\<lparr>pos := nat off\<rparr>"
    using assms(2) by (intro gfile.equality) simp_all
  then show ?thesis
    using assms(1)
    by (simp add: Fabric_Graph_read_uint16_def Fabric_Graph_read_bytes_def fseek_set_def)
qed

lemma flush_loop_keeps_store:
  "flush_loop h m cs g = Some (Inr g1) \<Longrightarrow>
     offset (class_store g1) = offset (class_store g) \<and>
     num_classes (class_store g1) = num_classes (class_store g) \<and>
     next_free_id (class_store g1) = next_free_id (class_store g) \<and>
     last_free_id (class_store g1) = last_free_id (class_store g) \<and>
     label_store g1 = label_store g"
proof (induction cs arbitrary: g)
  case Nil
  then show ?case by simp
next
  case (Cons c cs)
  from Cons.prems obtain g0 where
    "flush_loop h m cs g0 = Some (Inr g1)"
    "offset (class_store g0) = offset (class_store g)"
    "num_classes (class_store g0) = num_classes (class_store g)"
    "next_free_id (class_store g0) = next_free_id (class_store g)"
    "last_free_id (class_store g0) = last_free_id (class_store g)"
    "label_store g0 = label_store g"
    by (auto simp: Let_def split: if_splits option.splits)
  with Cons.IH [of g0] show ?case by simp
qed

lemma read_write_uint16_host:
  assumes "0 \<le> off"
  shows "fst (Fabric_Graph_read_uint16 h (Fabric_Graph_write_uint16 h f v off) off) =
         header_last_field h v"
  using assms
  by (cases h) (simp_all add: header_last_field_def read_write_uint16_big read_write_uint16_little)

lemma flush_then_init_last_free_id:
  assumes fl: "Fabric_ClassStore_flush h g = Some (FABRIC_OK, g1)"
    and ne: "\<not> Fabric_IdSet_is_empty (changed (class_store g))"
  shows "last_free_id (class_store (snd (Fabric_ClassStore_init h g1))) =
         header_last_field h (next_free_id (class_store g))"
proof -
  from fl ne obtain cs where cs: "Fabric_IdSet_to_array (changed (class_store g)) = Some cs"
    by (auto simp: Fabric_ClassStore_flush_def Let_def split: option.splits)
  have no_inl: "flush_loop h (max_id_of g) cs g \<noteq> Some (Inl (FABRIC_OK, g1))"
    using flush_loop_needs_resize [of h "max_id_of g" cs g FABRIC_OK g1]
    by (auto simp: error_codes)
  from fl ne cs no_inl obtain g0 where
    loop: "flush_loop h (max_id_of g) cs g = Some (Inr g0)"
    and g1: "g1 = g0\<lparr>graph_file :=
        Fabric_Graph_write_uint16 h
          (Fabric_Graph_write_uint16 h
             (Fabric_Graph_write_uint16 h (graph_file g0) (num_classes (class_store g0))
                (uint (offset (class_store g0))))
             (next_free_id (class_store g0)) (uint (offset (class_store g0) + 2)))
          (next_free_id (class_store g0)) (uint (offset (class_store g0) + 4))\<rparr>"
    by (auto simp: Fabric_ClassStore_flush_def Let_def max_id_of_def
        split: option.splits sum.splits)
  let ?o = "offset (class_store g0)"
  let ?F = "graph_file g1"
  let ?f1 = "snd (Fabric_Graph_read_uint16 h ?F (uint ?o))"
  let ?f2 = "snd (Fabric_Graph_read_uint16 h ?f1 (uint (?o + 2)))"
  have b: "bytes ?f2 = bytes ?F" by (simp add: bytes_read_uint16)
  have "last_free_id (class_store (snd (Fabric_ClassStore_init h g1))) =
        fst (Fabric_Graph_read_uint16 h ?f2 (uint (?o + 4)))"
    by (simp add: Fabric_ClassStore_init_def split_beta Let_def g1)
  also have "\<dots> = fst (Fabric_Graph_read_uint16 h ?F (uint (?o + 4)))"
    by (rule read_uint16_bytes_only [OF _ b]) simp
  also have "\<dots> = header_last_field h (next_free_id (class_store g0))"
    by (simp add: g1 read_write_uint16_host)
  finally show ?thesis using flush_loop_keeps_store [OF loop] by simp
qed


lemma freelist_flush:
  "\<exists>g1. Fabric_ClassStore_flush BigEndian freelist_graph = Some (FABRIC_OK, g1)"
  by (simp add: Fabric_ClassStore_flush_def freelist_graph_def store0_def
      graph0_def array_of_table_be_2 idset_defs table_be_2_def Fabric_EntityMap_get_def
      FABRIC_CLASSSTORE_HEADER_SIZE_def FABRIC_CLASS_STORAGE_SIZE_def)

text \<open>
  Claim C7, at an input where the code departs from it: on a big-endian host the flush
  of \<open>freelist_graph\<close> succeeds, and the store that is then initialised from the file
  holds \<open>last_free_id = 2\<close>, the \<open>next_free_id\<close> of flush time, while the store held
  \<open>last_free_id = 4\<close> when it was flushed.
\<close>

theorem flush_writes_next_free_id_as_last_free_id:
  "flush_then_reload BigEndian freelist_graph = Some (FABRIC_OK, 2) \<and>
   next_free_id (class_store freelist_graph) = 2 \<and>
   last_free_id (class_store freelist_graph) = 4"
proof -
  obtain g1 where g1: "Fabric_ClassStore_flush BigEndian freelist_graph = Some (FABRIC_OK, g1)"
    using freelist_flush by blast
  have ne: "\<not> Fabric_IdSet_is_empty (changed (class_store freelist_graph))"
    by (simp add: freelist_graph_def store0_def table_be_2_def Fabric_IdSet_is_empty_def)
  have c: "next_free_id (class_store freelist_graph) = 2"
    "last_free_id (class_store freelist_graph) = 4"
    by (simp_all add: freelist_graph_def store0_def)
  from flush_then_init_last_free_id [OF g1 ne] c g1 show ?thesis
    by (simp add: flush_then_reload_def header_last_field_def)
qed

subsection \<open>Creating a class whose name is taken\<close>

lemma get_class_by_name_null:
  "Fabric_ClassStore_get_class_by_name lookup h g name status =
     (if status = 0 then None else Some (0, FABRIC_OK, g))"
  by (simp add: Fabric_ClassStore_get_class_by_name_def)

lemma create_class_returns_null:
  "Fabric_ClassStore_create_class lookup add_label h g extends name is_abs status =
     (if status = 0 then None else Some (0, FABRIC_OK, g))"
  by (simp add: Fabric_ClassStore_create_class_def get_class_by_name_null error_codes)

lemma get_class_cached:
  assumes "cache (class_store g) (ucast i) = Some a" and "a \<noteq> 0" and "ucast i \<noteq> (0 :: 32 word)"
    and "label_id (objects g a) \<noteq> 0"
  shows "Fabric_ClassStore_get_class h g i = (a, FABRIC_OK, g)"
  using assms
  by (simp add: Fabric_ClassStore_get_class_def Fabric_EntityMap_get_def Fabric_Class_is_in_use_def)

lemma sibling_walk_found:
  assumes "next_child_id (objects g c) = class_id"
  shows "sibling_walk h class_id c g = Some (c, FABRIC_OK, g)"
  using assms by (subst sibling_walk.simps) simp

lemma family_cache: "cache (class_store family_graph) = [1 \<mapsto> 10, 2 \<mapsto> 20, 3 \<mapsto> 30]"
  by (simp add: family_graph_def)

lemma family_changed: "changed (class_store family_graph) = Fabric_IdSet_new"
  by (simp add: family_graph_def store0_def)

lemma family_get:
  "Fabric_ClassStore_get_class h family_graph 1 = (10, FABRIC_OK, family_graph)"
  "Fabric_ClassStore_get_class h family_graph 2 = (20, FABRIC_OK, family_graph)"
  "Fabric_ClassStore_get_class h family_graph 3 = (30, FABRIC_OK, family_graph)"
  by (rule get_class_cached; simp add: family_cache family_objects root_class_def class_A_def class_B_def)+

text \<open>
  Claim C3, at an input where the code departs from it.  In \<open>family_graph\<close> the class
  named A is live (the index maps the name to id 2 and the store returns the class), and
  \<^verbatim>\<open>Fabric_ClassStore_create_class\<close> with the name A returns \<^verbatim>\<open>NULL\<close> and leaves the graph
  as it was, but with status \<^verbatim>\<open>FABRIC_OK\<close>, not \<^verbatim>\<open>FABRIC_DUPLICATE_CLASSNAME\<close>: the test
  \<^verbatim>\<open>FABRIC_OK != status\<close> in the lookup by name compares the pointer, so the lookup
  returns before it asks the index.
\<close>

theorem create_class_reports_ok_for_taken_name:
  "family_index ''A'' = (2, FABRIC_OK) \<and>
   Fabric_ClassStore_get_class h family_graph 2 = (20, FABRIC_OK, family_graph) \<and>
   Fabric_ClassStore_create_class family_index add_label h family_graph 10 ''A'' 0 1000 =
     Some (0, FABRIC_OK, family_graph) \<and>
   FABRIC_OK \<noteq> FABRIC_DUPLICATE_CLASSNAME"
  by (simp add: family_index_def family_get create_class_returns_null) (simp add: error_codes)


subsection \<open>Deleting a class that is not the first child\<close>

lemma add_2_to_table_3: "Fabric_IdSet_add LittleEndian table_3 2 = Some (FABRIC_OK, table_3_2)"
  by (simp add: idset_defs table_3_def table_3_2_def)

lemma add_2_again: "Fabric_IdSet_add LittleEndian table_3_2 2 = Some (FABRIC_OK, table_3_2)"
  by (simp add: idset_defs table_3_2_def)

lemma family_hierarchy_A:
  "delete_update_hierarchy LittleEndian family_graph 2 20 10 =
     Some (Inr (30, FABRIC_OK, family_graph\<lparr>
       objects := (objects family_graph)(30 := class_B),
       class_store := (class_store family_graph)\<lparr>
         cache := (cache (class_store family_graph))(3 \<mapsto> 30), changed := table_3\<rparr>\<rparr>))"
  apply (simp add: delete_update_hierarchy_def family_objects root_class_def Fabric_Class_get_first_child_class_def family_get)
  apply (simp add: sibling_walk_found family_objects class_B_def)
  apply (simp add: Fabric_EntityMap_set_def family_changed add_3_to_new_set)
  done

lemma family_finish_A:
  "classes_at [10, 20, 30] (delete_finish LittleEndian (family_graph\<lparr>
       objects := (objects family_graph)(30 := class_B),
       class_store := (class_store family_graph)\<lparr>
         cache := (cache (class_store family_graph))(3 \<mapsto> 30), changed := table_3\<rparr>\<rparr>)
       20 2 10 30 FABRIC_OK) =
   Some (FABRIC_OK, [root_class, class_A\<lparr>parent_id := 4\<rparr>, class_B])"
  by (simp add: delete_finish_def Fabric_IndexStore_remove_class_from_index_def
      Fabric_LabelStore_remove_label_def add_2_to_table_3 add_2_again Fabric_EntityMap_set_def
      Fabric_ClassStore__add_free_id_def family_objects Let_def classes_at_def)
     (simp add: family_graph_def store0_def class_A_def error_codes)

lemma family_delete_A_steps:
  "Fabric_ClassStore_delete_class LittleEndian family_graph 20 =
   delete_finish LittleEndian (family_graph\<lparr>
       objects := (objects family_graph)(30 := class_B),
       class_store := (class_store family_graph)\<lparr>
         cache := (cache (class_store family_graph))(3 \<mapsto> 30), changed := table_3\<rparr>\<rparr>)
       20 2 10 30 FABRIC_OK"
proof -
  have p: "Fabric_Class_get_parent_class LittleEndian family_graph 20 = (10, FABRIC_OK, family_graph)"
    by (simp add: Fabric_Class_get_parent_class_def family_objects class_A_def family_get)
  have a: "label_id class_A \<noteq> 0" "first_child_id class_A = 0" "count class_A = 0" "id class_A = 2"
    by (simp_all add: class_A_def)
  show ?thesis
    using a
    by (simp add: Fabric_ClassStore_delete_class_def family_objects p
        Fabric_Class_is_in_use_def Fabric_Class_has_child_classes_def Fabric_Class_has_members_def
        family_hierarchy_A)
qed

text \<open>
  Claim C1, at an input where the code departs from it.  In \<open>family_graph\<close> the children
  of the root are B (first child) and then A.  Deleting A returns \<^verbatim>\<open>FABRIC_OK\<close>, and the
  classes at the addresses of the root, A and B are then: the root as before, A with the
  free-list link in its parent field, and B as before, so the next-sibling id of the
  predecessor B is still the id of A and not the next-sibling id of A, which is 0: the
  deleted class is still in the chain.
\<close>

theorem delete_class_leaves_predecessor_link:
  "classes_at [10, 20, 30] (Fabric_ClassStore_delete_class LittleEndian family_graph 20) =
     Some (FABRIC_OK, [root_class, class_A\<lparr>parent_id := 4\<rparr>, class_B]) \<and>
   next_child_id class_B = id class_A \<and> next_child_id class_A = 0"
  by (simp add: family_delete_A_steps family_finish_A) (simp add: class_A_def class_B_def)

subsection \<open>The free list\<close>

text \<open>
  When \<^verbatim>\<open>Fabric_ClassStore_delete_class\<close> gets through its last part with \<^verbatim>\<open>FABRIC_OK\<close>, what
  that part did to the heap, the cache, the file and the two counters is \<open>release_class\<close>;
  it has also marked the class as changed and counted it off.
\<close>

lemma delete_finish_is_release:
  assumes "delete_finish h g c (id (objects g c)) parent_class child_class status =
             Some (FABRIC_OK, g')"
  shows "\<exists>g1. release_class g c = Some g1 \<and>
           g' = g1\<lparr>class_store := (class_store g1)\<lparr>
                  changed := changed (class_store g'),
                  num_classes := num_classes (class_store g) - 1\<rparr>\<rparr>"
  using assms
  by (auto simp: delete_finish_def release_class_def delete_revert_def Let_def
      Fabric_EntityMap_set_def Fabric_ClassStore__add_free_id_def
      Fabric_IndexStore_remove_class_from_index_def Fabric_LabelStore_remove_label_def
      split: if_splits option.splits prod.splits)

lemma ucast_16_32_inj [simp]: "(ucast (j :: 16 word) :: 32 word) = ucast k \<longleftrightarrow> j = k"
proof
  assume "(ucast j :: 32 word) = ucast k"
  then have "(ucast (ucast j :: 32 word) :: 16 word) = ucast (ucast k :: 32 word)" by simp
  then show "j = k" by (simp add: ucast16_32_16)
qed simp

lemma ucast_16_32_eq_0 [simp]: "(ucast (j :: 16 word) :: 32 word) = 0 \<longleftrightarrow> j = 0"
  using ucast_16_32_inj [of j 0] by simp

lemma next_id_is_link:
  "Fabric_ClassStore__next_id h g =
     (let self = class_store g in
      if next_free_id self = last_free_id self then
        Some (next_free_id self,
              g\<lparr>class_store := self\<lparr>next_free_id := next_free_id self + 1,
                                      last_free_id := last_free_id self + 1\<rparr>\<rparr>)
      else (case free_link h g (next_free_id self) of
              None \<Rightarrow> None
            | Some l \<Rightarrow>
                Some (next_free_id self,
                      (if Fabric_EntityMap_has_key (cache self) (ucast (next_free_id self)) then g
                       else g\<lparr>graph_file := snd (Fabric_Graph_read_uint16 h (graph_file g)
                          (uint (Fabric_ClassStore__get_id_offset self (next_free_id self)) + 4))\<rparr>)
                      \<lparr>class_store := self\<lparr>next_free_id := l\<rparr>\<rparr>)))"
  by (simp add: Fabric_ClassStore__next_id_def free_link_def Let_def split_beta)

lemma free_link_cached:
  assumes "cache (class_store g) (ucast j) = Some c" and "0 < c" and "j \<noteq> 0"
  shows "free_link h g j = Some (parent_id (objects g c))"
    and "Fabric_EntityMap_has_key (cache (class_store g)) (ucast j)"
  using assms
  by (simp_all add: free_link_def Fabric_EntityMap_has_key_def Fabric_EntityMap_get_def)

lemma free_chain_frame:
  assumes "free_chain n h g i = Some js"
    and "last_free_id (class_store g') = last_free_id (class_store g)"
    and "\<forall>j \<in> set js. free_link h g' j = free_link h g j"
  shows "free_chain n h g' i = Some js"
  using assms
proof (induction n arbitrary: i js)
  case 0
  then show ?case by simp
next
  case (Suc n)
  show ?case
  proof (cases "i = last_free_id (class_store g)")
    case True
    with Suc.prems show ?thesis by simp
  next
    case False
    with Suc.prems(1) obtain l ks where
      l: "free_link h g i = Some l" "free_chain n h g l = Some ks" "js = i # ks"
      by (auto split: option.splits)
    with Suc.prems(3) have "free_link h g' i = Some l" "\<forall>j \<in> set ks. free_link h g' j = free_link h g j"
      by auto
    with Suc.IH [OF l(2) Suc.prems(2)] l(3) False Suc.prems(2) show ?thesis by simp
  qed
qed

declare free_chain.simps [simp del]

lemma free_link_next_free_upd:
  "free_link h (g\<lparr>class_store := (class_store g)\<lparr>next_free_id := x\<rparr>\<rparr>) j = free_link h g j"
  by (simp add: free_link_def Fabric_ClassStore__get_id_offset_def Let_def)

lemma free_chain_empty:
  "free_chain (Suc 0) h g i = Some [] \<longleftrightarrow> i = last_free_id (class_store g)"
  by (auto simp: free_chain.simps split: option.splits)

lemma free_chain_Cons:
  assumes "free_chain (Suc (Suc n)) h g i = Some (j # js)"
  shows "i = j \<and> i \<noteq> last_free_id (class_store g) \<and>
         (\<exists>l. free_link h g i = Some l \<and> free_chain (Suc n) h g l = Some js)"
proof -
  have ne: "i \<noteq> last_free_id (class_store g)"
    using assms by (auto simp: free_chain.simps(2) [of "Suc n"] split: if_splits)
  with assms show ?thesis
    by (cases "free_link h g i") (auto simp: free_chain.simps(2) [of "Suc n"])
qed

lemma inv_empty:
  "next_free_id (class_store g) = last_free_id (class_store g) \<Longrightarrow> free_list_inv h g []"
  by (simp add: free_list_inv_def free_chain_empty)

lemma next_id_pops:
  assumes inv: "free_list_inv h g freed"
  shows "\<exists>i g1. Fabric_ClassStore__next_id h g = Some (i, g1) \<and>
           objects g1 = objects g \<and> brk g1 = brk g \<and>
           cache (class_store g1) = cache (class_store g) \<and>
           (case freed of
              [] \<Rightarrow> i = last_free_id (class_store g) \<and>
                    next_free_id (class_store g1) = next_free_id (class_store g) + 1 \<and>
                    last_free_id (class_store g1) = last_free_id (class_store g) + 1
            | j # js \<Rightarrow> i = j \<and>
                    last_free_id (class_store g1) = last_free_id (class_store g) \<and>
                    free_chain (Suc (length js)) h g1 (next_free_id (class_store g1)) = Some js)"
proof (cases freed)
  case Nil
  with inv have "next_free_id (class_store g) = last_free_id (class_store g)"
    by (simp add: free_list_inv_def free_chain_empty)
  with Nil show ?thesis by (simp add: next_id_is_link Let_def)
next
  case (Cons j js)
  let ?self = "class_store g"
  from inv Cons have ch: "free_chain (Suc (Suc (length js))) h g (next_free_id ?self) = Some (j # js)"
    by (simp add: free_list_inv_def)
  from free_chain_Cons [OF ch] obtain l where
    l: "next_free_id ?self = j" "next_free_id ?self \<noteq> last_free_id ?self"
       "free_link h g j = Some l" "free_chain (Suc (length js)) h g l = Some js"
    by auto
  from inv Cons obtain c where
    c: "cache ?self (ucast j) = Some c" "0 < c" "j \<noteq> 0"
    by (auto simp: free_list_inv_def)
  have hk: "Fabric_EntityMap_has_key (cache ?self) (ucast j)"
    using free_link_cached(2) [OF c] .
  let ?g1 = "g\<lparr>class_store := ?self\<lparr>next_free_id := l\<rparr>\<rparr>"
  have nid: "Fabric_ClassStore__next_id h g = Some (j, ?g1)"
    using l hk by (simp add: next_id_is_link)
  have "free_chain (Suc (length js)) h ?g1 l = Some js"
    by (rule free_chain_frame [OF l(4)]) (simp_all add: free_link_next_free_upd)
  with nid Cons show ?thesis by simp
qed

lemma inv_allocate:
  assumes inv: "free_list_inv h g freed"
  shows "\<exists>i g1. allocate_class h g = Some (i, g1) \<and> free_list_inv h g1 (remove1 i freed)"
proof -
  from next_id_pops [OF inv] obtain i g0 where
    n: "Fabric_ClassStore__next_id h g = Some (i, g0)"
       "objects g0 = objects g" "brk g0 = brk g"
       "cache (class_store g0) = cache (class_store g)"
    and r: "case freed of
              [] \<Rightarrow> i = last_free_id (class_store g) \<and>
                    next_free_id (class_store g0) = next_free_id (class_store g) + 1 \<and>
                    last_free_id (class_store g0) = last_free_id (class_store g) + 1
            | j # js \<Rightarrow> i = j \<and>
                    last_free_id (class_store g0) = last_free_id (class_store g) \<and>
                    free_chain (Suc (length js)) h g0 (next_free_id (class_store g0)) = Some js"
    by blast
  let ?g1 = "g0\<lparr>objects := (objects g0)(brk g0 := (objects g0 (brk g0))\<lparr>id := i\<rparr>),
                  brk := brk g0 + 1,
                  class_store := (class_store g0)\<lparr>cache := (cache (class_store g0))(ucast i \<mapsto> brk g0)\<rparr>\<rparr>"
  have a: "allocate_class h g = Some (i, ?g1)"
    by (simp add: allocate_class_def n(1) Fabric_Class_new_def Fabric_EntityMap_set_def)
  have "free_list_inv h ?g1 (remove1 i freed)"
  proof (cases freed)
    case Nil
    with r inv have "next_free_id (class_store g0) = last_free_id (class_store g0)"
      by (simp add: free_list_inv_def free_chain_empty)
    with Nil show ?thesis by (simp add: free_list_inv_def free_chain_empty)
  next
    case (Cons j js)
    with r have i: "i = j" and last: "last_free_id (class_store g0) = last_free_id (class_store g)"
      and ch: "free_chain (Suc (length js)) h g0 (next_free_id (class_store g0)) = Some js"
      by auto
    from inv Cons have d: "distinct (j # js)" by (simp add: free_list_inv_def)
    have each: "\<exists>c. cache (class_store g) (ucast k) = Some c \<and> 0 < c \<and> c < brk g \<and>
                  id (objects g c) = k" "k \<noteq> 0" "k \<noteq> last_free_id (class_store g)"
      if "k \<in> set js" for k
      using inv Cons that by (auto simp: free_list_inv_def)
    have cached: "\<exists>c. cache (class_store ?g1) (ucast k) = Some c \<and> 0 < c \<and> c < brk ?g1 \<and>
                    id (objects ?g1 c) = k \<and> cache (class_store g0) (ucast k) = Some c \<and>
                    objects ?g1 c = objects g0 c"
      if "k \<in> set js" for k
    proof -
      from each(1) [OF that] obtain c where
        c: "cache (class_store g) (ucast k) = Some c" "0 < c" "c < brk g" "id (objects g c) = k"
        by blast
      from that d i have ki: "k \<noteq> i" by auto
      from c(3) n(3) have cb: "c \<noteq> brk g0" by simp
      have 1: "cache (class_store ?g1) (ucast k) = Some c" using c(1) n(4) ki by simp
      have 2: "c < brk ?g1" using c(3) n(3) by simp
      have 3: "objects ?g1 c = objects g0 c" using cb by simp
      have 4: "cache (class_store g0) (ucast k) = Some c" using c(1) n(4) by simp
      have 5: "id (objects ?g1 c) = k" using 3 c(4) n(2) by simp
      from 1 2 3 4 5 c(2) show ?thesis by blast
    qed
    have links: "\<forall>k \<in> set js. free_link h ?g1 k = free_link h g0 k"
    proof
      fix k assume k: "k \<in> set js"
      from cached [OF k] obtain c where
        c: "cache (class_store ?g1) (ucast k) = Some c" "0 < c"
           "cache (class_store g0) (ucast k) = Some c" "objects ?g1 c = objects g0 c"
        by blast
      from free_link_cached(1) [OF c(1) c(2) each(2) [OF k], of h]
        free_link_cached(1) [OF c(3) c(2) each(2) [OF k], of h] c(4)
      show "free_link h ?g1 k = free_link h g0 k" by simp
    qed
    have "free_chain (Suc (length js)) h ?g1 (next_free_id (class_store g0)) = Some js"
      by (rule free_chain_frame [OF ch _ links]) simp
    moreover have "\<forall>k \<in> set js. k \<noteq> 0 \<and> k \<noteq> last_free_id (class_store ?g1) \<and>
         (\<exists>c. cache (class_store ?g1) (ucast k) = Some c \<and> 0 < c \<and> c < brk ?g1 \<and>
              id (objects ?g1 c) = k)"
    proof
      fix k assume k: "k \<in> set js"
      from cached [OF k] obtain c where
        "cache (class_store ?g1) (ucast k) = Some c \<and> 0 < c \<and> c < brk ?g1 \<and>
              id (objects ?g1 c) = k" by blast
      then have "\<exists>c. cache (class_store ?g1) (ucast k) = Some c \<and> 0 < c \<and> c < brk ?g1 \<and>
              id (objects ?g1 c) = k" by blast
      moreover have "k \<noteq> last_free_id (class_store ?g1)"
        using each(3) [OF k] last by simp
      ultimately show "k \<noteq> 0 \<and> k \<noteq> last_free_id (class_store ?g1) \<and>
         (\<exists>c. cache (class_store ?g1) (ucast k) = Some c \<and> 0 < c \<and> c < brk ?g1 \<and>
              id (objects ?g1 c) = k)" using each(2) [OF k] by blast
    qed
    ultimately show ?thesis
      using d Cons i unfolding free_list_inv_def by simp
  qed
  with a show ?thesis by blast
qed

lemma inv_release:
  assumes inv: "free_list_inv h g freed" and rel: "releasable g freed c"
  shows "\<exists>g1. release_class g c = Some g1 \<and> free_list_inv h g1 (id (objects g c) # freed)"
proof -
  let ?i = "id (objects g c)"
  let ?self = "class_store g"
  let ?g1 = "g\<lparr>class_store := ?self\<lparr>cache := (cache ?self)(ucast ?i \<mapsto> c)\<rparr>\<rparr>
              \<lparr>objects := (objects g)(c := (objects g c)\<lparr>parent_id := next_free_id ?self\<rparr>),
               class_store := ?self\<lparr>cache := (cache ?self)(ucast ?i \<mapsto> c),
                                      next_free_id := ?i\<rparr>\<rparr>"
  from rel have c: "0 < c" "c < brk g" "?i \<noteq> 0" "?i \<noteq> last_free_id ?self" "?i \<notin> set freed"
    by (simp_all add: releasable_def)
  have r: "release_class g c = Some ?g1"
    using c(1)
    by (simp add: release_class_def Fabric_EntityMap_set_def Fabric_ClassStore__add_free_id_def
        Let_def)
  have each: "\<exists>d. cache ?self (ucast k) = Some d \<and> 0 < d \<and> d < brk g \<and> id (objects g d) = k"
    "k \<noteq> 0" "k \<noteq> last_free_id ?self"
    if "k \<in> set freed" for k
    using inv that by (auto simp: free_list_inv_def)
  have cached: "\<exists>d. cache (class_store ?g1) (ucast k) = Some d \<and> 0 < d \<and> d < brk ?g1 \<and>
                  id (objects ?g1 d) = k \<and> cache ?self (ucast k) = Some d \<and>
                  objects ?g1 d = objects g d"
    if "k \<in> set freed" for k
  proof -
    from each(1) [OF that] obtain d where
      d: "cache ?self (ucast k) = Some d" "0 < d" "d < brk g" "id (objects g d) = k"
      by blast
    from that c(5) have ki: "k \<noteq> ?i" by auto
    with d(4) have dc: "d \<noteq> c" by auto
    have 1: "cache (class_store ?g1) (ucast k) = Some d" using d(1) ki by simp
    have 2: "d < brk ?g1" using d(3) by simp
    have 3: "objects ?g1 d = objects g d" using dc by simp
    have 4: "id (objects ?g1 d) = k" using 3 d(4) by simp
    from 1 2 3 4 d(1) d(2) show ?thesis by blast
  qed
  have links: "\<forall>k \<in> set freed. free_link h ?g1 k = free_link h g k"
  proof
    fix k assume k: "k \<in> set freed"
    from cached [OF k] obtain d where
      d: "cache (class_store ?g1) (ucast k) = Some d" "0 < d"
         "cache ?self (ucast k) = Some d" "objects ?g1 d = objects g d"
      by blast
    from free_link_cached(1) [OF d(1) d(2) each(2) [OF k], of h]
      free_link_cached(1) [OF d(3) d(2) each(2) [OF k], of h] d(4)
    show "free_link h ?g1 k = free_link h g k" by simp
  qed
  from inv have ch: "free_chain (Suc (length freed)) h g (next_free_id ?self) = Some freed"
    by (simp add: free_list_inv_def)
  have ch1: "free_chain (Suc (length freed)) h ?g1 (next_free_id ?self) = Some freed"
    by (rule free_chain_frame [OF ch _ links]) simp
  have own: "cache (class_store ?g1) (ucast ?i) = Some c" by simp
  have link: "free_link h ?g1 ?i = Some (next_free_id ?self)"
    using free_link_cached(1) [OF own c(1) c(3), of h] by simp
  have chain: "free_chain (Suc (Suc (length freed))) h ?g1 ?i = Some (?i # freed)"
    using c(4) link ch1 by (simp add: free_chain.simps(2) [of "Suc (length freed)"])
  have all: "\<forall>k \<in> set (?i # freed). k \<noteq> 0 \<and> k \<noteq> last_free_id (class_store ?g1) \<and>
         (\<exists>d. cache (class_store ?g1) (ucast k) = Some d \<and> 0 < d \<and> d < brk ?g1 \<and>
              id (objects ?g1 d) = k)"
  proof
    fix k assume k: "k \<in> set (?i # freed)"
    show "k \<noteq> 0 \<and> k \<noteq> last_free_id (class_store ?g1) \<and>
         (\<exists>d. cache (class_store ?g1) (ucast k) = Some d \<and> 0 < d \<and> d < brk ?g1 \<and>
              id (objects ?g1 d) = k)"
    proof (cases "k = ?i")
      case True
      have "cache (class_store ?g1) (ucast k) = Some c \<and> 0 < c \<and> c < brk ?g1 \<and>
              id (objects ?g1 c) = k"
        using True c by simp
      then have "\<exists>d. cache (class_store ?g1) (ucast k) = Some d \<and> 0 < d \<and> d < brk ?g1 \<and>
              id (objects ?g1 d) = k" by blast
      with True c show ?thesis by simp
    next
      case False
      with k have kf: "k \<in> set freed" by simp
      from cached [OF kf] obtain d where
        "cache (class_store ?g1) (ucast k) = Some d \<and> 0 < d \<and> d < brk ?g1 \<and>
              id (objects ?g1 d) = k" by blast
      then have "\<exists>d. cache (class_store ?g1) (ucast k) = Some d \<and> 0 < d \<and> d < brk ?g1 \<and>
              id (objects ?g1 d) = k" by blast
      moreover have "k \<noteq> last_free_id (class_store ?g1)" using each(3) [OF kf] by simp
      ultimately show ?thesis using each(2) [OF kf] by blast
    qed
  qed
  from inv c(5) have "distinct (?i # freed)" by (simp add: free_list_inv_def)
  with all chain have "free_list_inv h ?g1 (?i # freed)"
    unfolding free_list_inv_def by simp
  with r show ?thesis by blast
qed

lemma run_ops_inv:
  assumes "free_list_inv h g freed" and "legal_ops h ops (g, freed)"
  shows "\<exists>g' freed'. run_ops h ops (g, freed) = Some (g', freed') \<and> free_list_inv h g' freed'"
  using assms
proof (induction ops arbitrary: g freed)
  case Nil
  then show ?case by simp
next
  case (Cons op ops)
  show ?case
  proof (cases op)
    case Allocate
    from inv_allocate [OF Cons.prems(1)] obtain i g1 where
      a: "allocate_class h g = Some (i, g1)" "free_list_inv h g1 (remove1 i freed)" by blast
    with Cons.prems(2) Allocate have "legal_ops h ops (g1, remove1 i freed)" by simp
    from Cons.IH [OF a(2) this] a(1) Allocate show ?thesis by simp
  next
    case (Release c)
    with Cons.prems(2) have rel: "releasable g freed c" by simp
    from inv_release [OF Cons.prems(1) rel] obtain g1 where
      r: "release_class g c = Some g1" "free_list_inv h g1 (id (objects g c) # freed)" by blast
    with Cons.prems(2) Release have "legal_ops h ops (g1, id (objects g c) # freed)" by simp
    from Cons.IH [OF r(2) this] r(1) Release show ?thesis by simp
  qed
qed

lemmas free_list_defs =
  allocate_class_def release_class_def Fabric_ClassStore__next_id_def
  Fabric_ClassStore__add_free_id_def Fabric_Class_new_def Fabric_EntityMap_set_def
  Fabric_EntityMap_has_key_def Fabric_EntityMap_get_def releasable_def free_link_def
  free_chain.simps

lemma family_release_legal:
  "legal_ops LittleEndian [Release 20, Release 30, Allocate] (family_graph, [])"
  by (simp add: free_list_defs family_graph_def store0_def class_A_def class_B_def Let_def)

lemma family_release_freed:
  "freed_after LittleEndian [Release 20, Release 30, Allocate] family_graph = Some [2]"
  by (simp add: freed_after_def free_list_defs family_graph_def store0_def class_A_def
      class_B_def Let_def)

text \<open>
  Claim C2 as stated fails for a sequence that runs the 16-bit counter around.  From
  \<open>wrap_graph\<close> three allocations return the ids \<open>0xFFFF\<close>, \<open>0\<close> and \<open>1\<close> and leave
  \<^verbatim>\<open>next_free_id = last_free_id = 2\<close>; the deletion of the live class A (id 2) then sets
  \<^verbatim>\<open>next_free_id\<close> to 2 again.  Id 2 is free, but the chain from \<^verbatim>\<open>next_free_id\<close> ends at
  once, at \<^verbatim>\<open>last_free_id\<close>, and holds no id.
\<close>

theorem free_list_misses_id_after_wrap_around:
  "freed_after LittleEndian [Allocate, Allocate, Allocate, Release 20] wrap_graph = Some [2] \<and>
   chain_after LittleEndian [Allocate, Allocate, Allocate, Release 20] wrap_graph = Some []"
  by (simp add: freed_after_def chain_after_def free_list_defs wrap_graph_def store0_def
      class_A_def Let_def)

text \<open>
  Claim C2, amended.  Start from a store with an empty free list
  (\<^verbatim>\<open>next_free_id = last_free_id\<close>) and run any sequence of allocations and deletions in
  which every deletion is of a class that can be deleted at that moment (\<open>legal_ops\<close>).
  Then every step returns, and afterwards the chain of links from \<^verbatim>\<open>next_free_id\<close> ends at
  \<^verbatim>\<open>last_free_id\<close> after as many links as there are free ids, and is the list of the free
  ids, the one deleted last first.  The next allocation returns the head of the chain
  and leaves the rest of it as the chain, with \<^verbatim>\<open>last_free_id\<close> unchanged; when the chain
  is empty it returns \<^verbatim>\<open>last_free_id\<close> and adds one to both fields.
\<close>

theorem free_list_invariant:
  assumes "next_free_id (class_store g) = last_free_id (class_store g)"
    and "legal_ops h ops (g, [])"
  shows "\<exists>g' freed. run_ops h ops (g, []) = Some (g', freed) \<and>
           free_chain (Suc (length freed)) h g' (next_free_id (class_store g')) = Some freed \<and>
           (\<exists>i g''. Fabric_ClassStore__next_id h g' = Some (i, g'') \<and>
              (case freed of
                 [] \<Rightarrow> i = last_free_id (class_store g') \<and>
                       next_free_id (class_store g'') = next_free_id (class_store g') + 1 \<and>
                       last_free_id (class_store g'') = last_free_id (class_store g') + 1
               | j # js \<Rightarrow> i = j \<and>
                       last_free_id (class_store g'') = last_free_id (class_store g') \<and>
                       free_chain (Suc (length js)) h g'' (next_free_id (class_store g'')) =
                         Some js))"
proof -
  from run_ops_inv [OF inv_empty [OF assms(1)] assms(2)] obtain g' freed where
    r: "run_ops h ops (g, []) = Some (g', freed)" "free_list_inv h g' freed" by blast
  from r(2) have ch: "free_chain (Suc (length freed)) h g' (next_free_id (class_store g')) = Some freed"
    by (simp add: free_list_inv_def)
  from next_id_pops [OF r(2)] obtain i g'' where
    "Fabric_ClassStore__next_id h g' = Some (i, g'')"
    "case freed of
              [] \<Rightarrow> i = last_free_id (class_store g') \<and>
                    next_free_id (class_store g'') = next_free_id (class_store g') + 1 \<and>
                    last_free_id (class_store g'') = last_free_id (class_store g') + 1
            | j # js \<Rightarrow> i = j \<and>
                    last_free_id (class_store g'') = last_free_id (class_store g') \<and>
                    free_chain (Suc (length js)) h g'' (next_free_id (class_store g'')) = Some js"
    by blast
  with r(1) ch show ?thesis by blast
qed

theorem free_list_invariant_witness:
  "next_free_id (class_store family_graph) = last_free_id (class_store family_graph) \<and>
   legal_ops LittleEndian [Release 20, Release 30, Allocate] (family_graph, []) \<and>
   freed_after LittleEndian [Release 20, Release 30, Allocate] family_graph = Some [2] \<and>
   chain_after LittleEndian [Release 20, Release 30, Allocate] family_graph = Some [2]"
proof -
  have eq: "next_free_id (class_store family_graph) = last_free_id (class_store family_graph)"
    by (simp add: family_graph_def)
  from free_list_invariant [OF eq family_release_legal] obtain g' freed where
    r: "run_ops LittleEndian [Release 20, Release 30, Allocate] (family_graph, []) =
          Some (g', freed)"
       "free_chain (Suc (length freed)) LittleEndian g' (next_free_id (class_store g')) =
          Some freed"
    by blast
  from r(1) family_release_freed have "freed = [2]" by (simp add: freed_after_def)
  with r have "chain_after LittleEndian [Release 20, Release 30, Allocate] family_graph = Some [2]"
    by (simp add: chain_after_def)
  with eq family_release_legal family_release_freed show ?thesis by simp
qed

end
